theory Spec2Isabelle
  imports Main "HOL-Library.Multiset"
begin

section \<open>Data model\<close>

text \<open>
  The program is a single module, \<^verbatim>\<open>main.py\<close>: a process-wide cache dictionary, an
  upload directory, a configuration dictionary and three request handlers. The
  embedding threads all of that state through every function as one record. The
  DataFrame objects the code mutates in place (\<^verbatim>\<open>fillna(inplace=True)\<close>, column
  assignment) live in an explicit object store, so that the difference between the
  cached table and a per-request copy is a difference of addresses.

  Cells are text, numbers or missing. Numbers and similarity scores are floats in the
  source; they are kept abstract as a linearly ordered type \<open>'f\<close>.
\<close>

type_synonym addr = nat

datatype 'f cell = NaN | Text string | Num 'f

type_synonym 'f pyrecord = "(string \<times> 'f cell) list"

text \<open>A DataFrame: its column labels, and its rows as (index label, fields by column).\<close>

record 'f dataframe =
  columns :: "string list"
  rows :: "(nat \<times> 'f pyrecord) list"

datatype exn = HTTPException nat string | PyError string

text \<open>The calls whose number the cache is there to bound.\<close>

datatype event = ReadExcel string | FitTransform

record 'b stored_file =
  ctime :: nat
  content :: 'b

text \<open>The global \<^verbatim>\<open>cache\<close> dictionary; \<open>None\<close> is Python's \<^verbatim>\<open>None\<close>.\<close>

record ('vz, 'vec) cache_entry =
  filepath :: "string option"
  df :: "addr option"
  vectorizer :: "'vz option"
  matrix :: "'vec list option"

text \<open>
  What pandas and scikit-learn contribute. \<open>read_excel\<close> and \<open>fit_transform\<close> may
  raise (\<open>Inl\<close> carries the exception's text). \<open>argsort_desc\<close> is the indexer that
  \<^verbatim>\<open>sort_values(by=..., ascending=False)\<close> computes with its default \<^verbatim>\<open>kind\<close>: the
  positions of the keys in the order in which the rows are returned.
\<close>

record ('b, 'f, 'vz, 'vec) library =
  read_excel :: "'b \<Rightarrow> string + 'f dataframe"
  str_num :: "'f \<Rightarrow> string"
  fit_transform :: "'f cell list \<Rightarrow> string + ('vz \<times> 'vec list)"
  transform :: "'vz \<Rightarrow> string \<Rightarrow> string + 'vec"
  cosine_similarity :: "'vec \<Rightarrow> 'vec \<Rightarrow> 'f"
  argsort_desc :: "'f list \<Rightarrow> nat list"

text \<open>
  The process state: the upload directory in \<^verbatim>\<open>os.listdir\<close> order, the configured
  \<^verbatim>\<open>search_columns\<close> (an absent key reads as the empty list, as \<^verbatim>\<open>config.get\<close> does),
  the cache, the DataFrame store and the log of library calls.
\<close>

record ('b, 'f, 'vz, 'vec) world =
  uploads :: "(string \<times> 'b stored_file) list"
  search_columns :: "string list"
  cache :: "('vz, 'vec) cache_entry"
  heap :: "'f dataframe list"
  io_log :: "event list"

section \<open>Constants of the source\<close>

definition UPLOAD_DIR :: string where
  "UPLOAD_DIR = ''uploads''"

definition CATEGORY_COLUMN :: string where
  "CATEGORY_COLUMN =
    [CHR 0xE7, CHR 0x94, CHR 0xBB, CHR 0xE9, CHR 0x9D, CHR 0xA2, CHR 0xE5, CHR 0x90,
     CHR 0x8D, CHR 0xE7, CHR 0xA7, CHR 0xB0]"

definition ALL_AREAS :: string where
  "ALL_AREAS =
    [CHR 0xE3, CHR 0x81, CHR 0x99, CHR 0xE3, CHR 0x81, CHR 0xB9, CHR 0xE3, CHR 0x81,
     CHR 0xA6]"

definition MSG_NO_SEARCH_COLUMNS :: string where
  "MSG_NO_SEARCH_COLUMNS =
    [CHR 0xE8, CHR 0xA8, CHR 0xAD, CHR 0xE5, CHR 0xAE, CHR 0x9A, CHR 0xE3, CHR 0x83,
     CHR 0x95, CHR 0xE3, CHR 0x82, CHR 0xA1, CHR 0xE3, CHR 0x82, CHR 0xA4, CHR 0xE3,
     CHR 0x83, CHR 0xAB, CHR 0xE3, CHR 0x81, CHR 0xAB, CHR 0xE6, CHR 0xA4, CHR 0x9C,
     CHR 0xE7, CHR 0xB4, CHR 0xA2, CHR 0xE5, CHR 0xAF, CHR 0xBE, CHR 0xE8, CHR 0xB1,
     CHR 0xA1, CHR 0xE5, CHR 0x88, CHR 0x97, CHR 0xE3, CHR 0x81, CHR 0x8C, CHR 0xE6,
     CHR 0x8C, CHR 0x87, CHR 0xE5, CHR 0xAE, CHR 0x9A, CHR 0xE3, CHR 0x81, CHR 0x95,
     CHR 0xE3, CHR 0x82, CHR 0x8C, CHR 0xE3, CHR 0x81, CHR 0xA6, CHR 0xE3, CHR 0x81,
     CHR 0x84, CHR 0xE3, CHR 0x81, CHR 0xBE, CHR 0xE3, CHR 0x81, CHR 0x9B, CHR 0xE3,
     CHR 0x82, CHR 0x93, CHR 0xE3, CHR 0x80, CHR 0x82]"

definition MSG_COL_PRE :: string where
  "MSG_COL_PRE =
    [CHR 0xE8, CHR 0xA8, CHR 0xAD, CHR 0xE5, CHR 0xAE, CHR 0x9A, CHR 0xE3, CHR 0x83,
     CHR 0x95, CHR 0xE3, CHR 0x82, CHR 0xA1, CHR 0xE3, CHR 0x82, CHR 0xA4, CHR 0xE3,
     CHR 0x83, CHR 0xAB, CHR 0xE3, CHR 0x81, CHR 0xA7, CHR 0xE6, CHR 0x8C, CHR 0x87,
     CHR 0xE5, CHR 0xAE, CHR 0x9A, CHR 0xE3, CHR 0x81, CHR 0x95, CHR 0xE3, CHR 0x82,
     CHR 0x8C, CHR 0xE3, CHR 0x81, CHR 0x9F, CHR 0xE5, CHR 0x88, CHR 0x97, CHR 0x20,
     CHR 0x22]"

definition MSG_COL_POST :: string where
  "MSG_COL_POST =
    [CHR 0x22, CHR 0x20, CHR 0xE3, CHR 0x81, CHR 0x8C, CHR 0xE3, CHR 0x82, CHR 0xA2,
     CHR 0xE3, CHR 0x83, CHR 0x83, CHR 0xE3, CHR 0x83, CHR 0x97, CHR 0xE3, CHR 0x83,
     CHR 0xAD, CHR 0xE3, CHR 0x83, CHR 0xBC, CHR 0xE3, CHR 0x83, CHR 0x89, CHR 0xE3,
     CHR 0x81, CHR 0x95, CHR 0xE3, CHR 0x82, CHR 0x8C, CHR 0xE3, CHR 0x81, CHR 0x9F,
     CHR 0xE3, CHR 0x83, CHR 0x95, CHR 0xE3, CHR 0x82, CHR 0xA1, CHR 0xE3, CHR 0x82,
     CHR 0xA4, CHR 0xE3, CHR 0x83, CHR 0xAB, CHR 0xE3, CHR 0x81, CHR 0xAB, CHR 0xE8,
     CHR 0xA6, CHR 0x8B, CHR 0xE3, CHR 0x81, CHR 0xA4, CHR 0xE3, CHR 0x81, CHR 0x8B,
     CHR 0xE3, CHR 0x82, CHR 0x8A, CHR 0xE3, CHR 0x81, CHR 0xBE, CHR 0xE3, CHR 0x81,
     CHR 0x9B, CHR 0xE3, CHR 0x82, CHR 0x93, CHR 0xE3, CHR 0x80, CHR 0x82]"

definition MSG_UNEXPECTED :: string where
  "MSG_UNEXPECTED =
    [CHR 0xE3, CHR 0x83, CHR 0x87, CHR 0xE3, CHR 0x83, CHR 0xBC, CHR 0xE3, CHR 0x82,
     CHR 0xBF, CHR 0xE3, CHR 0x81, CHR 0xAE, CHR 0xE8, CHR 0xAA, CHR 0xAD, CHR 0xE3,
     CHR 0x81, CHR 0xBF, CHR 0xE8, CHR 0xBE, CHR 0xBC, CHR 0xE3, CHR 0x81, CHR 0xBF,
     CHR 0xE3, CHR 0x81, CHR 0xBE, CHR 0xE3, CHR 0x81, CHR 0x9F, CHR 0xE3, CHR 0x81,
     CHR 0xAF, CHR 0xE3, CHR 0x82, CHR 0xAD, CHR 0xE3, CHR 0x83, CHR 0xA3, CHR 0xE3,
     CHR 0x83, CHR 0x83, CHR 0xE3, CHR 0x82, CHR 0xB7, CHR 0xE3, CHR 0x83, CHR 0xA5,
     CHR 0xE4, CHR 0xB8, CHR 0xAD, CHR 0xE3, CHR 0x81, CHR 0xAB, CHR 0xE4, CHR 0xBA,
     CHR 0x88, CHR 0xE6, CHR 0x9C, CHR 0x9F, CHR 0xE3, CHR 0x81, CHR 0x9B, CHR 0xE3,
     CHR 0x81, CHR 0xAC, CHR 0xE3, CHR 0x82, CHR 0xA8, CHR 0xE3, CHR 0x83, CHR 0xA9,
     CHR 0xE3, CHR 0x83, CHR 0xBC, CHR 0xE3, CHR 0x81, CHR 0x8C, CHR 0xE7, CHR 0x99,
     CHR 0xBA, CHR 0xE7, CHR 0x94, CHR 0x9F, CHR 0xE3, CHR 0x81, CHR 0x97, CHR 0xE3,
     CHR 0x81, CHR 0xBE, CHR 0xE3, CHR 0x81, CHR 0x97, CHR 0xE3, CHR 0x81, CHR 0x9F,
     CHR 0x3A, CHR 0x20]"

definition MSG_UPLOAD_OK :: string where
  "MSG_UPLOAD_OK =
    [CHR 0x20, CHR 0xE3, CHR 0x81, CHR 0xAE, CHR 0xE3, CHR 0x82, CHR 0xA2, CHR 0xE3,
     CHR 0x83, CHR 0x83, CHR 0xE3, CHR 0x83, CHR 0x97, CHR 0xE3, CHR 0x83, CHR 0xAD,
     CHR 0xE3, CHR 0x83, CHR 0xBC, CHR 0xE3, CHR 0x83, CHR 0x89, CHR 0xE3, CHR 0x81,
     CHR 0x8C, CHR 0xE6, CHR 0x88, CHR 0x90, CHR 0xE5, CHR 0x8A, CHR 0x9F, CHR 0xE3,
     CHR 0x81, CHR 0x97, CHR 0xE3, CHR 0x81, CHR 0xBE, CHR 0xE3, CHR 0x81, CHR 0x97,
     CHR 0xE3, CHR 0x81, CHR 0x9F, CHR 0xE3, CHR 0x80, CHR 0x82]"

definition MSG_UPLOAD_FAILED :: string where
  "MSG_UPLOAD_FAILED =
    [CHR 0xE3, CHR 0x83, CHR 0x95, CHR 0xE3, CHR 0x82, CHR 0xA1, CHR 0xE3, CHR 0x82,
     CHR 0xA4, CHR 0xE3, CHR 0x83, CHR 0xAB, CHR 0xE3, CHR 0x81, CHR 0xAE, CHR 0xE3,
     CHR 0x82, CHR 0xA2, CHR 0xE3, CHR 0x83, CHR 0x83, CHR 0xE3, CHR 0x83, CHR 0x97,
     CHR 0xE3, CHR 0x83, CHR 0xAD, CHR 0xE3, CHR 0x83, CHR 0xBC, CHR 0xE3, CHR 0x83,
     CHR 0x89, CHR 0xE4, CHR 0xB8, CHR 0xAD, CHR 0xE3, CHR 0x81, CHR 0xAB, CHR 0xE3,
     CHR 0x82, CHR 0xA8, CHR 0xE3, CHR 0x83, CHR 0xA9, CHR 0xE3, CHR 0x83, CHR 0xBC,
     CHR 0xE3, CHR 0x81, CHR 0x8C, CHR 0xE7, CHR 0x99, CHR 0xBA, CHR 0xE7, CHR 0x94,
     CHR 0x9F, CHR 0xE3, CHR 0x81, CHR 0x97, CHR 0xE3, CHR 0x81, CHR 0xBE, CHR 0xE3,
     CHR 0x81, CHR 0x97, CHR 0xE3, CHR 0x81, CHR 0x9F, CHR 0xE3, CHR 0x80, CHR 0x82]"

definition MSG_AREAS_NO_COLUMN :: string where
  "MSG_AREAS_NO_COLUMN =
    [CHR 0x27, CHR 0xE7, CHR 0x94, CHR 0xBB, CHR 0xE9, CHR 0x9D, CHR 0xA2, CHR 0xE5,
     CHR 0x90, CHR 0x8D, CHR 0xE7, CHR 0xA7, CHR 0xB0, CHR 0x27, CHR 0xE5, CHR 0x88,
     CHR 0x97, CHR 0xE3, CHR 0x81, CHR 0x8C, CHR 0xE3, CHR 0x83, CHR 0x95, CHR 0xE3,
     CHR 0x82, CHR 0xA1, CHR 0xE3, CHR 0x82, CHR 0xA4, CHR 0xE3, CHR 0x83, CHR 0xAB,
     CHR 0xE3, CHR 0x81, CHR 0xAB, CHR 0xE8, CHR 0xA6, CHR 0x8B, CHR 0xE3, CHR 0x81,
     CHR 0xA4, CHR 0xE3, CHR 0x81, CHR 0x8B, CHR 0xE3, CHR 0x82, CHR 0x8A, CHR 0xE3,
     CHR 0x81, CHR 0xBE, CHR 0xE3, CHR 0x81, CHR 0x9B, CHR 0xE3, CHR 0x82, CHR 0x93,
     CHR 0xE3, CHR 0x80, CHR 0x82]"

definition MSG_PLEASE_UPLOAD :: string where
  "MSG_PLEASE_UPLOAD =
    [CHR 0xE3, CHR 0x83, CHR 0x95, CHR 0xE3, CHR 0x82, CHR 0xA1, CHR 0xE3, CHR 0x82,
     CHR 0xA4, CHR 0xE3, CHR 0x83, CHR 0xAB, CHR 0xE3, CHR 0x82, CHR 0x92, CHR 0xE3,
     CHR 0x82, CHR 0xA2, CHR 0xE3, CHR 0x83, CHR 0x83, CHR 0xE3, CHR 0x83, CHR 0x97,
     CHR 0xE3, CHR 0x83, CHR 0xAD, CHR 0xE3, CHR 0x83, CHR 0xBC, CHR 0xE3, CHR 0x83,
     CHR 0x89, CHR 0xE3, CHR 0x81, CHR 0x97, CHR 0xE3, CHR 0x81, CHR 0xA6, CHR 0xE3,
     CHR 0x81, CHR 0x8F, CHR 0xE3, CHR 0x81, CHR 0xA0, CHR 0xE3, CHR 0x81, CHR 0x95,
     CHR 0xE3, CHR 0x81, CHR 0x84, CHR 0xE3, CHR 0x80, CHR 0x82]"

definition MSG_NOT_CACHED :: string where
  "MSG_NOT_CACHED =
    [CHR 0xE3, CHR 0x83, CHR 0x87, CHR 0xE3, CHR 0x83, CHR 0xBC, CHR 0xE3, CHR 0x82,
     CHR 0xBF, CHR 0xE3, CHR 0x81, CHR 0x8C, CHR 0xE3, CHR 0x82, CHR 0xAD, CHR 0xE3,
     CHR 0x83, CHR 0xA3, CHR 0xE3, CHR 0x83, CHR 0x83, CHR 0xE3, CHR 0x82, CHR 0xB7,
     CHR 0xE3, CHR 0x83, CHR 0xA5, CHR 0xE3, CHR 0x81, CHR 0x95, CHR 0xE3, CHR 0x82,
     CHR 0x8C, CHR 0xE3, CHR 0x81, CHR 0xA6, CHR 0xE3, CHR 0x81, CHR 0x84, CHR 0xE3,
     CHR 0x81, CHR 0xBE, CHR 0xE3, CHR 0x81, CHR 0x9B, CHR 0xE3, CHR 0x82, CHR 0x93,
     CHR 0xE3, CHR 0x80, CHR 0x82]"

definition MSG_SEARCH_NO_COLUMN :: string where
  "MSG_SEARCH_NO_COLUMN =
    [CHR 0x27, CHR 0xE7, CHR 0x94, CHR 0xBB, CHR 0xE9, CHR 0x9D, CHR 0xA2, CHR 0xE5,
     CHR 0x90, CHR 0x8D, CHR 0xE7, CHR 0xA7, CHR 0xB0, CHR 0x27, CHR 0xE5, CHR 0x88,
     CHR 0x97, CHR 0xE3, CHR 0x81, CHR 0x8C, CHR 0xE8, CHR 0xA6, CHR 0x8B, CHR 0xE3,
     CHR 0x81, CHR 0xA4, CHR 0xE3, CHR 0x81, CHR 0x8B, CHR 0xE3, CHR 0x82, CHR 0x8A,
     CHR 0xE3, CHR 0x81, CHR 0xBE, CHR 0xE3, CHR 0x81, CHR 0x9B, CHR 0xE3, CHR 0x82,
     CHR 0x93, CHR 0xE3, CHR 0x80, CHR 0x82]"

section \<open>DataFrame operations\<close>

definition path_join :: "string \<Rightarrow> string \<Rightarrow> string" where
  "path_join d f = d @ ''/'' @ f"

text \<open>Python's \<^verbatim>\<open>max(xs, key=k)\<close> on a non-empty list: the first maximal element.\<close>

fun max_by :: "('a \<Rightarrow> nat) \<Rightarrow> 'a \<Rightarrow> 'a list \<Rightarrow> 'a" where
  "max_by k best [] = best"
| "max_by k best (x # xs) = max_by k (if k best < k x then x else best) xs"

definition cell_of :: "'f pyrecord \<Rightarrow> string \<Rightarrow> 'f cell" where
  "cell_of r c = (case map_of r c of None \<Rightarrow> NaN | Some v \<Rightarrow> v)"

fun dict_set :: "string \<Rightarrow> 'f cell \<Rightarrow> 'f pyrecord \<Rightarrow> 'f pyrecord" where
  "dict_set k v [] = [(k, v)]"
| "dict_set k v (p # ps) = (if fst p = k then (k, v) # ps else p # dict_set k v ps)"

text \<open>\<^verbatim>\<open>df.fillna("", inplace=True)\<close>\<close>

definition fill_cell :: "'f cell \<Rightarrow> 'f cell" where
  "fill_cell c = (case c of NaN \<Rightarrow> Text [] | Text s \<Rightarrow> Text s | Num x \<Rightarrow> Num x)"

definition fillna :: "'f dataframe \<Rightarrow> 'f dataframe" where
  "fillna d = d\<lparr>rows := map (\<lambda>(i, r). (i, map (\<lambda>(c, v). (c, fill_cell v)) r)) (rows d)\<rparr>"

text \<open>\<^verbatim>\<open>df[name] = values\<close>: the column is replaced where it exists and appended otherwise.\<close>

definition set_column :: "'f dataframe \<Rightarrow> string \<Rightarrow> 'f cell list \<Rightarrow> 'f dataframe" where
  "set_column d name vals =
     d\<lparr>columns := (if name \<in> set (columns d) then columns d else columns d @ [name]),
       rows := map (\<lambda>((i, r), v). (i, dict_set name v r)) (zip (rows d) vals)\<rparr>"

definition column_values :: "'f dataframe \<Rightarrow> string \<Rightarrow> 'f cell list" where
  "column_values d name = map (\<lambda>(i, r). cell_of r name) (rows d)"

text \<open>\<^verbatim>\<open>x.astype(str)\<close> on one cell, and \<^verbatim>\<open>' '.join(...)\<close>.\<close>

definition astype_str :: "('b, 'f, 'vz, 'vec) library \<Rightarrow> 'f cell \<Rightarrow> string" where
  "astype_str L c = (case c of NaN \<Rightarrow> ''nan'' | Text s \<Rightarrow> s | Num x \<Rightarrow> str_num L x)"

fun join_space :: "string list \<Rightarrow> string" where
  "join_space [] = []"
| "join_space [s] = s"
| "join_space (s # t # ts) = s @ '' '' @ join_space (t # ts)"

text \<open>\<^verbatim>\<open>df[search_columns].apply(lambda x: ' '.join(x.astype(str)), axis=1)\<close>\<close>

definition search_texts ::
  "('b, 'f, 'vz, 'vec) library \<Rightarrow> string list \<Rightarrow> 'f dataframe \<Rightarrow> string list" where
  "search_texts L cols d =
     map (\<lambda>(i, r). join_space (map (\<lambda>c. astype_str L (cell_of r c)) cols)) (rows d)"

text \<open>\<^verbatim>\<open>target_df[target_df[col] == value]\<close>: the rows keep their index labels.\<close>

definition filter_rows :: "'f dataframe \<Rightarrow> string \<Rightarrow> string \<Rightarrow> 'f dataframe" where
  "filter_rows d col val = d\<lparr>rows := filter (\<lambda>(i, r). cell_of r col = Text val) (rows d)\<rparr>"

text \<open>\<^verbatim>\<open>df.empty\<close>: some axis has length zero.\<close>

definition df_empty :: "'f dataframe \<Rightarrow> bool" where
  "df_empty d = (rows d = [] \<or> columns d = [])"

definition dropna :: "'f cell list \<Rightarrow> 'f cell list" where
  "dropna cs = filter (\<lambda>c. c \<noteq> NaN) cs"

text \<open>\<^verbatim>\<open>Series.unique()\<close>: the distinct values in order of first appearance.\<close>

fun unique :: "'a list \<Rightarrow> 'a list" where
  "unique [] = []"
| "unique (x # xs) = x # unique (filter (\<lambda>y. y \<noteq> x) xs)"

text \<open>\<^verbatim>\<open>matrix[filtered_indices]\<close>: row selection; an index beyond the matrix raises.\<close>

definition slice_matrix :: "'vec list option \<Rightarrow> nat list \<Rightarrow> string + 'vec list" where
  "slice_matrix m idxs =
     (case m of
        None \<Rightarrow> Inl ''TypeError''
      | Some vs \<Rightarrow>
          if list_all (\<lambda>i. i < length vs) idxs then Inr (map (\<lambda>i. vs ! i) idxs)
          else Inl ''IndexError'')"

definition py_transform ::
  "('b, 'f, 'vz, 'vec) library \<Rightarrow> 'vz option \<Rightarrow> string \<Rightarrow> string + 'vec" where
  "py_transform L vz keywords =
     (case vz of None \<Rightarrow> Inl ''AttributeError'' | Some v \<Rightarrow> transform L v keywords)"

text \<open>
  \<^verbatim>\<open>sort_values(by="similarity", ascending=False)\<close>: the rows are taken at the positions
  the library's indexer returns for the column's values. The column was assigned from
  \<open>keys\<close> on the line before, so the keys are passed as they were computed.
\<close>

definition sort_values_desc ::
  "('b, 'f, 'vz, 'vec) library \<Rightarrow> 'f dataframe \<Rightarrow> 'f list \<Rightarrow> string + 'f dataframe" where
  "sort_values_desc L d keys =
     (let indexer = argsort_desc L keys in
      if list_all (\<lambda>i. i < length (rows d)) indexer
      then Inr (d\<lparr>rows := map (\<lambda>i. rows d ! i) indexer\<rparr>)
      else Inl ''IndexError'')"

definition head :: "nat \<Rightarrow> 'f dataframe \<Rightarrow> 'f dataframe" where
  "head n d = d\<lparr>rows := take n (rows d)\<rparr>"

definition to_dict_records :: "'f dataframe \<Rightarrow> 'f pyrecord list" where
  "to_dict_records d = map snd (rows d)"


section \<open>The cache\<close>

definition empty_cache :: "('vz, 'vec) cache_entry" where
  "empty_cache = \<lparr>filepath = None, df = None, vectorizer = None, matrix = None\<rparr>"

text \<open>
  The body of the \<^verbatim>\<open>try\<close> block of \<^verbatim>\<open>_ensure_data_is_cached\<close> from \<^verbatim>\<open>pd.read_excel\<close> on:
  \<open>Inl\<close> is the exception the body raises, with the state at that point.
\<close>

definition load_latest ::
  "('b, 'f, 'vz, 'vec) library \<Rightarrow> ('b, 'f, 'vz, 'vec) world \<Rightarrow> string \<Rightarrow> 'b stored_file
     \<Rightarrow> (exn + unit) \<times> ('b, 'f, 'vz, 'vec) world" where
  "load_latest L w latest_file f =
     (let w1 = w\<lparr>io_log := io_log w @ [ReadExcel latest_file]\<rparr> in
      case read_excel L (content f) of
        Inl msg \<Rightarrow> (Inl (PyError msg), w1)
      | Inr tbl \<Rightarrow>
          let a = length (heap w1);
              w2 = w1\<lparr>heap := heap w1 @ [tbl]\<rparr>;
              w3 = w2\<lparr>heap := (heap w2)[a := fillna (heap w2 ! a)]\<rparr>;
              cols = search_columns w3
          in if cols = [] then (Inl (HTTPException 500 MSG_NO_SEARCH_COLUMNS), w3)
             else
               case find (\<lambda>col. col \<notin> set (columns (heap w3 ! a))) cols of
                 Some col \<Rightarrow>
                   (Inl (HTTPException 400 (MSG_COL_PRE @ col @ MSG_COL_POST)), w3)
               | None \<Rightarrow>
                   let w4 = w3\<lparr>heap := (heap w3)
                              [a := set_column (heap w3 ! a) ''search_text''
                                      (map Text (search_texts L cols (heap w3 ! a)))]\<rparr>;
                       w5 = w4\<lparr>io_log := io_log w4 @ [FitTransform]\<rparr>
                   in case fit_transform L (column_values (heap w5 ! a) ''search_text'') of
                        Inl msg \<Rightarrow> (Inl (PyError msg), w5)
                      | Inr (vz, m) \<Rightarrow>
                          (Inr (),
                           w5\<lparr>cache := \<lparr>filepath = Some latest_file, df = Some a,
                                         vectorizer = Some vz, matrix = Some m\<rparr>\<rparr>))"

text \<open>
  \<^verbatim>\<open>max([os.path.join(UPLOAD_DIR, f) for f in files], key=os.path.getctime)\<close>, as the
  directory entry it selects; \<open>None\<close> when the directory is empty.
\<close>

definition latest_upload :: "(string \<times> 'b stored_file) list \<Rightarrow> (string \<times> 'b stored_file) option" where
  "latest_upload files =
     (case files of [] \<Rightarrow> None | p # ps \<Rightarrow> Some (max_by (\<lambda>q. ctime (snd q)) p ps))"

definition try_body ::
  "('b, 'f, 'vz, 'vec) library \<Rightarrow> ('b, 'f, 'vz, 'vec) world
     \<Rightarrow> (exn + unit) \<times> ('b, 'f, 'vz, 'vec) world" where
  "try_body L w =
     (case latest_upload (uploads w) of
        None \<Rightarrow> (Inr (), w)
      | Some (name, f) \<Rightarrow>
          let latest_file = path_join UPLOAD_DIR name
          in if filepath (cache w) = Some latest_file \<and> df (cache w) \<noteq> None
             then (Inr (), w)
             else load_latest L w latest_file f)"

text \<open>
  The \<^verbatim>\<open>except Exception\<close> block: the cache is replaced by an empty one, an
  \<^verbatim>\<open>HTTPException\<close> is raised again as it is, anything else is wrapped in a 500.
\<close>

definition except_handler ::
  "exn \<Rightarrow> ('b, 'f, 'vz, 'vec) world \<Rightarrow> (exn + unit) \<times> ('b, 'f, 'vz, 'vec) world" where
  "except_handler e w =
     (Inl (case e of
             HTTPException code detail \<Rightarrow> HTTPException code detail
           | PyError msg \<Rightarrow> HTTPException 500 (MSG_UNEXPECTED @ msg)),
      w\<lparr>cache := empty_cache\<rparr>)"

definition ensure_data_is_cached ::
  "('b, 'f, 'vz, 'vec) library \<Rightarrow> ('b, 'f, 'vz, 'vec) world
     \<Rightarrow> (exn + unit) \<times> ('b, 'f, 'vz, 'vec) world" where
  "ensure_data_is_cached L w =
     (case try_body L w of
        (Inl e, w') \<Rightarrow> except_handler e w'
      | (Inr u, w') \<Rightarrow> (Inr u, w'))"

section \<open>The request handlers\<close>

text \<open>
  \<^verbatim>\<open>upload_file\<close>. The file name is a plain name in the upload directory. The time
  the file system stamps on the written file and how the write goes come from the
  environment: the file is written; or \<^verbatim>\<open>open\<close> fails and the directory is as it was; or
  \<^verbatim>\<open>open(upload_path, "wb")\<close> has created or truncated the file and reading the upload or
  writing it fails, which leaves the file with what had been written of it. A write to
  an existing name replaces that file. Only a completed write reaches the line that
  empties the cache.
\<close>

datatype 'b write_outcome = Written | OpenFailed | WriteFailed 'b

fun write_file :: "(string \<times> 'b stored_file) list \<Rightarrow> string \<Rightarrow> 'b stored_file
     \<Rightarrow> (string \<times> 'b stored_file) list" where
  "write_file [] name f = [(name, f)]"
| "write_file (p # ps) name f =
     (if fst p = name then (name, f) # ps else p # write_file ps name f)"

definition upload_file ::
  "('b, 'f, 'vz, 'vec) world \<Rightarrow> string \<Rightarrow> 'b \<Rightarrow> nat \<Rightarrow> 'b write_outcome
     \<Rightarrow> (exn + string) \<times> ('b, 'f, 'vz, 'vec) world" where
  "upload_file w filename data now outcome =
     (case outcome of
        Written \<Rightarrow>
          (Inr (filename @ MSG_UPLOAD_OK),
           w\<lparr>uploads := write_file (uploads w) filename \<lparr>ctime = now, content = data\<rparr>,
             cache := empty_cache\<rparr>)
      | OpenFailed \<Rightarrow> (Inl (HTTPException 500 MSG_UPLOAD_FAILED), w)
      | WriteFailed partial \<Rightarrow>
          (Inl (HTTPException 500 MSG_UPLOAD_FAILED),
           w\<lparr>uploads := write_file (uploads w) filename \<lparr>ctime = now, content = partial\<rparr>\<rparr>))"

definition get_functional_areas ::
  "('b, 'f, 'vz, 'vec) library \<Rightarrow> ('b, 'f, 'vz, 'vec) world
     \<Rightarrow> (exn + 'f cell list) \<times> ('b, 'f, 'vz, 'vec) world" where
  "get_functional_areas L w =
     (if uploads w = [] then (Inr [], w)
      else
        case ensure_data_is_cached L w of
          (Inl e, w1) \<Rightarrow> (Inl e, w1)
        | (Inr u, w1) \<Rightarrow>
            (case df (cache w1) of
               None \<Rightarrow> (Inl (HTTPException 400 MSG_AREAS_NO_COLUMN), w1)
             | Some a \<Rightarrow>
                 if CATEGORY_COLUMN \<notin> set (columns (heap w1 ! a))
                 then (Inl (HTTPException 400 MSG_AREAS_NO_COLUMN), w1)
                 else (Inr (unique (dropna (column_values (heap w1 ! a) CATEGORY_COLUMN))),
                       w1)))"

text \<open>
  \<^verbatim>\<open>search_inquiries\<close>, lines 206 to 211: the copy of the cached table, and the
  selection of the rows of one category. Both are new objects.
\<close>

definition select_target ::
  "('b, 'f, 'vz, 'vec) world \<Rightarrow> addr \<Rightarrow> string option
     \<Rightarrow> (exn + addr) \<times> ('b, 'f, 'vz, 'vec) world" where
  "select_target w a functional_area =
     (let t = length (heap w);
          w1 = w\<lparr>heap := heap w @ [heap w ! a]\<rparr>
      in case functional_area of
           None \<Rightarrow> (Inr t, w1)
         | Some area \<Rightarrow>
             if area \<noteq> [] \<and> area \<noteq> ALL_AREAS then
               if CATEGORY_COLUMN \<in> set (columns (heap w1 ! t))
               then (Inr (length (heap w1)),
                     w1\<lparr>heap := heap w1 @ [filter_rows (heap w1 ! t) CATEGORY_COLUMN area]\<rparr>)
               else (Inl (HTTPException 400 MSG_SEARCH_NO_COLUMN), w1)
             else (Inr t, w1))"

text \<open>Lines 213 to 237: the scores are written into the target table, which is then sorted.\<close>

definition rank_results ::
  "('b, 'f, 'vz, 'vec) library \<Rightarrow> ('b, 'f, 'vz, 'vec) world \<Rightarrow> addr
     \<Rightarrow> 'vz option \<Rightarrow> 'vec list option \<Rightarrow> string
     \<Rightarrow> (exn + 'f pyrecord list) \<times> ('b, 'f, 'vz, 'vec) world" where
  "rank_results L w t vz m keywords =
     (if df_empty (heap w ! t) then (Inr [], w)
      else
        let filtered_indices = map fst (rows (heap w ! t)) in
        case slice_matrix m filtered_indices of
          Inl msg \<Rightarrow> (Inl (PyError msg), w)
        | Inr filtered_matrix \<Rightarrow>
            (case py_transform L vz keywords of
               Inl msg \<Rightarrow> (Inl (PyError msg), w)
             | Inr query_vec \<Rightarrow>
                 let cosine_similarities = map (cosine_similarity L query_vec) filtered_matrix;
                     w1 = w\<lparr>heap := (heap w)
                            [t := set_column (heap w ! t) ''similarity''
                                    (map Num cosine_similarities)]\<rparr>
                 in case sort_values_desc L (heap w1 ! t) cosine_similarities of
                      Inl msg \<Rightarrow> (Inl (PyError msg), w1)
                    | Inr results_df \<Rightarrow> (Inr (to_dict_records (head 100 results_df)), w1)))"

definition search_inquiries ::
  "('b, 'f, 'vz, 'vec) library \<Rightarrow> ('b, 'f, 'vz, 'vec) world \<Rightarrow> string \<Rightarrow> string option
     \<Rightarrow> (exn + 'f pyrecord list) \<times> ('b, 'f, 'vz, 'vec) world" where
  "search_inquiries L w keywords functional_area =
     (if uploads w = [] then (Inl (HTTPException 400 MSG_PLEASE_UPLOAD), w)
      else
        case ensure_data_is_cached L w of
          (Inl e, w1) \<Rightarrow> (Inl e, w1)
        | (Inr u, w1) \<Rightarrow>
            (case df (cache w1) of
               None \<Rightarrow> (Inl (HTTPException 500 MSG_NOT_CACHED), w1)
             | Some a \<Rightarrow>
                 (case select_target w1 a functional_area of
                    (Inl e, w2) \<Rightarrow> (Inl e, w2)
                  | (Inr t, w2) \<Rightarrow>
                      rank_results L w2 t (vectorizer (cache w1)) (matrix (cache w1))
                        keywords)))"


section \<open>Vocabulary of the statements\<close>

text \<open>
  The table a rebuild stores: the parsed table with missing values filled and the
  \<^verbatim>\<open>search_text\<close> column added (lines 114 and 126 in one expression).
\<close>

definition build_table ::
  "('b, 'f, 'vz, 'vec) library \<Rightarrow> string list \<Rightarrow> 'f dataframe \<Rightarrow> 'f dataframe" where
  "build_table L cols tbl =
     set_column (fillna tbl) ''search_text'' (map Text (search_texts L cols (fillna tbl)))"

text \<open>
  What a rebuild from one file's content comes to (lines 112 to 129): the first failure
  among parsing, the two checks of the configuration and fitting, or the table, the
  vectorizer and the matrix that are cached.
\<close>

definition rebuild_outcome ::
  "('b, 'f, 'vz, 'vec) library \<Rightarrow> string list \<Rightarrow> 'b
     \<Rightarrow> exn + ('f dataframe \<times> 'vz \<times> 'vec list)" where
  "rebuild_outcome L cols data =
     (case read_excel L data of
        Inl msg \<Rightarrow> Inl (PyError msg)
      | Inr tbl \<Rightarrow>
          if cols = [] then Inl (HTTPException 500 MSG_NO_SEARCH_COLUMNS)
          else
            case find (\<lambda>col. col \<notin> set (columns tbl)) cols of
              Some col \<Rightarrow> Inl (HTTPException 400 (MSG_COL_PRE @ col @ MSG_COL_POST))
            | None \<Rightarrow>
                (case fit_transform L (column_values (build_table L cols tbl) ''search_text'') of
                   Inl msg \<Rightarrow> Inl (PyError msg)
                 | Inr (vz, m) \<Rightarrow> Inr (build_table L cols tbl, vz, m)))"

text \<open>The test of line 105, for the newest file's name.\<close>

definition cache_hit :: "('b, 'f, 'vz, 'vec) world \<Rightarrow> string \<Rightarrow> bool" where
  "cache_hit w name =
     (filepath (cache w) = Some (path_join UPLOAD_DIR name) \<and> df (cache w) \<noteq> None)"

text \<open>The exception \<^verbatim>\<open>_ensure_data_is_cached\<close> raises for one raised in its body.\<close>

definition reraised :: "exn \<Rightarrow> exn" where
  "reraised e =
     (case e of
        HTTPException code detail \<Rightarrow> HTTPException code detail
      | PyError msg \<Rightarrow> HTTPException 500 (MSG_UNEXPECTED @ msg))"

text \<open>The rows a search ranks: those of one category, or all of them.\<close>

definition candidates :: "'f dataframe \<Rightarrow> string option \<Rightarrow> (nat \<times> 'f pyrecord) list" where
  "candidates d functional_area =
     (case functional_area of
        None \<Rightarrow> rows d
      | Some area \<Rightarrow>
          if area \<noteq> [] \<and> area \<noteq> ALL_AREAS then rows (filter_rows d CATEGORY_COLUMN area)
          else rows d)"

text \<open>Each candidate with its score: the score, and the row's fields with the score added.\<close>

definition scored ::
  "('b, 'f, 'vz, 'vec) library \<Rightarrow> 'vec \<Rightarrow> 'vec list \<Rightarrow> (nat \<times> 'f pyrecord) list
     \<Rightarrow> ('f \<times> 'f pyrecord) list" where
  "scored L q m cands =
     map (\<lambda>(i, r). (cosine_similarity L q (m ! i),
                     dict_set ''similarity'' (Num (cosine_similarity L q (m ! i))) r)) cands"

text \<open>
  A stable sort by descending score: a row goes in front of the first row whose score
  is not above its own, so rows of equal score keep their order.
\<close>

fun insert_desc :: "('f::linorder \<times> 'a) \<Rightarrow> ('f \<times> 'a) list \<Rightarrow> ('f \<times> 'a) list" where
  "insert_desc x [] = [x]"
| "insert_desc x (y # ys) = (if fst y \<le> fst x then x # y # ys else y # insert_desc x ys)"

definition stable_sort_desc :: "('f::linorder \<times> 'a) list \<Rightarrow> ('f \<times> 'a) list" where
  "stable_sort_desc xs = foldr insert_desc xs []"

text \<open>
  The ranking as the specification words it: descending score, ties in original row
  order, at most 100 entries.
\<close>

definition spec_ranking :: "('f::linorder \<times> 'f pyrecord) list \<Rightarrow> 'f pyrecord list" where
  "spec_ranking xs = map snd (take 100 (stable_sort_desc xs))"

text \<open>
  What \<^verbatim>\<open>sort_values\<close> promises of its indexer whatever the \<^verbatim>\<open>kind\<close>: the positions
  \<open>0..<n\<close>, each once, with the keys in descending order. Only \<^verbatim>\<open>kind="mergesort"\<close> and
  \<^verbatim>\<open>kind="stable"\<close> promise more, and the source passes neither.
\<close>

definition sort_contract :: "('b, 'f::linorder, 'vz, 'vec) library \<Rightarrow> bool" where
  "sort_contract L =
     (\<forall>keys. mset (argsort_desc L keys) = mset [0..<length keys]
           \<and> sorted_wrt (\<lambda>i j. keys ! j \<le> keys ! i) (argsort_desc L keys))"

text \<open>A returned record that is a row of the table \<open>d\<close> with a similarity score added.\<close>

definition derived_from :: "'f dataframe \<Rightarrow> 'f pyrecord \<Rightarrow> bool" where
  "derived_from d r =
     list_ex (\<lambda>(i, r0). case map_of r ''similarity'' of
                          None \<Rightarrow> False
                        | Some v \<Rightarrow> r = dict_set ''similarity'' v r0) (rows d)"

text \<open>
  A state in which the newest file is \<open>x\<close> and the cache, if it holds a table at all,
  holds \<open>d\<close>.
\<close>

definition serves_upload ::
  "string list \<Rightarrow> string \<times> 'b stored_file \<Rightarrow> 'f dataframe \<Rightarrow> ('b, 'f, 'vz, 'vec) world
     \<Rightarrow> bool" where
  "serves_upload cols x d w =
     (latest_upload (uploads w) = Some x \<and> search_columns w = cols
      \<and> (case df (cache w) of None \<Rightarrow> True | Some a \<Rightarrow> a < length (heap w) \<and> heap w ! a = d))"

text \<open>The states a sequence of searches leads through.\<close>

fun after_searches ::
  "('b, 'f, 'vz, 'vec) library \<Rightarrow> ('b, 'f, 'vz, 'vec) world \<Rightarrow> (string \<times> string option) list
     \<Rightarrow> ('b, 'f, 'vz, 'vec) world" where
  "after_searches L w [] = w"
| "after_searches L w (q # qs) =
     after_searches L (snd (search_inquiries L w (fst q) (snd q))) qs"

section \<open>Example data\<close>

text \<open>
  A small library for concrete runs: a file's content is what the parser makes of it,
  the vector of a text is its length, and the score of a row falls with the distance
  between its length and the query's. Two indexers: one keeps rows of equal score in
  their order, the other is an ascending stable sort read backwards.
\<close>

definition stable_argsort_desc :: "'f::linorder list \<Rightarrow> nat list" where
  "stable_argsort_desc keys = map snd (stable_sort_desc (zip keys [0..<length keys]))"

fun insert_asc :: "('f::linorder \<times> 'a) \<Rightarrow> ('f \<times> 'a) list \<Rightarrow> ('f \<times> 'a) list" where
  "insert_asc x [] = [x]"
| "insert_asc x (y # ys) = (if fst x \<le> fst y then x # y # ys else y # insert_asc x ys)"

definition reversed_argsort :: "'f::linorder list \<Rightarrow> nat list" where
  "reversed_argsort keys = rev (map snd (foldr insert_asc (zip keys [0..<length keys]) []))"

definition text_length :: "int cell \<Rightarrow> int" where
  "text_length c = (case c of NaN \<Rightarrow> 0 | Text s \<Rightarrow> int (length s) | Num x \<Rightarrow> 0)"

definition demo_lib :: "(string + int dataframe, int, unit, int) library" where
  "demo_lib =
     \<lparr>read_excel = (\<lambda>c. c),
      str_num = (\<lambda>x. ''#''),
      fit_transform = (\<lambda>cells. Inr ((), map text_length cells)),
      transform = (\<lambda>vz kw. Inr (int (length kw))),
      cosine_similarity = (\<lambda>q v. - \<bar>q - v\<bar>),
      argsort_desc = stable_argsort_desc\<rparr>"

definition demo_lib_rev :: "(string + int dataframe, int, unit, int) library" where
  "demo_lib_rev = demo_lib\<lparr>argsort_desc := reversed_argsort\<rparr>"

definition inquiries :: "int dataframe" where
  "inquiries =
     \<lparr>columns = [''title'', CATEGORY_COLUMN],
      rows = [(0, [(''title'', Text ''ab''), (CATEGORY_COLUMN, Text ''A'')]),
              (1, [(''title'', Text ''abcd''), (CATEGORY_COLUMN, NaN)]),
              (2, [(''title'', Text ''xy''), (CATEGORY_COLUMN, Text ''B'')])]\<rparr>"

definition one_upload :: "(string + int dataframe, int, unit, int) world" where
  "one_upload =
     \<lparr>uploads = [(''a.xlsx'', \<lparr>ctime = 1, content = Inr inquiries\<rparr>)],
      search_columns = [''title''],
      cache = empty_cache, heap = [], io_log = []\<rparr>"


text \<open>The same upload with no search column configured, and with one the file lacks.\<close>

definition no_config :: "(string + int dataframe, int, unit, int) world" where
  "no_config = one_upload\<lparr>search_columns := []\<rparr>"

definition missing_column :: "(string + int dataframe, int, unit, int) world" where
  "missing_column = one_upload\<lparr>search_columns := [''title'', ''body'']\<rparr>"

text \<open>
  The state after one successful rebuild, and that state with the file under the same
  name replaced behind the application's back: a later time stamp and other rows.
\<close>

definition cached_world :: "(string + int dataframe, int, unit, int) world" where
  "cached_world = snd (ensure_data_is_cached demo_lib one_upload)"

definition replaced_file :: "(string + int dataframe) stored_file" where
  "replaced_file =
     \<lparr>ctime = 2,
      content = Inr \<lparr>columns = [''title''], rows = [(0, [(''title'', Text ''new'')])]\<rparr>\<rparr>"

definition touched_world :: "(string + int dataframe, int, unit, int) world" where
  "touched_world = cached_world\<lparr>uploads := [(''a.xlsx'', replaced_file)]\<rparr>"

text \<open>An upload whose table has no category column.\<close>

definition plain_upload :: "(string + int dataframe, int, unit, int) world" where
  "plain_upload =
     \<lparr>uploads = [(''b.xlsx'', replaced_file)],
      search_columns = [''title''],
      cache = empty_cache, heap = [], io_log = []\<rparr>"

text \<open>
  A second workbook uploaded, under another name and at a later time, to the state
  whose cache holds the first.
\<close>

definition second_upload :: "(string + int dataframe, int, unit, int) world" where
  "second_upload = snd (upload_file cached_world ''b.xlsx'' (content replaced_file) 2 Written)"

text \<open>The same second workbook, written with the time stamp the first file bears.\<close>

definition tied_upload :: "(string + int dataframe, int, unit, int) world" where
  "tied_upload = snd (upload_file cached_world ''b.xlsx'' (content replaced_file) 1 Written)"


section \<open>Rebuilding the cache\<close>


lemma columns_fillna [simp]: "columns (fillna d) = columns d"
  by (simp add: fillna_def)

lemma load_latest_ok:
  assumes "rebuild_outcome L (search_columns w) (content f) = Inr (d, vz, m)"
  shows "load_latest L w p f =
           (Inr (), w\<lparr>io_log := io_log w @ [ReadExcel p, FitTransform],
                      heap := heap w @ [d],
                      cache := \<lparr>filepath = Some p, df = Some (length (heap w)),
                                 vectorizer = Some vz, matrix = Some m\<rparr>\<rparr>)"
  using assms
  by (auto simp: rebuild_outcome_def load_latest_def build_table_def Let_def
      split: sum.splits if_splits option.splits prod.splits)

lemma load_latest_fail:
  assumes "rebuild_outcome L (search_columns w) (content f) = Inl e"
  shows "\<exists>h es. load_latest L w p f =
           (Inl e, w\<lparr>io_log := io_log w @ ReadExcel p # es, heap := heap w @ h\<rparr>)"
proof (cases "read_excel L (content f)")
  case (Inl msg)
  with assms have "load_latest L w p f =
      (Inl e, w\<lparr>io_log := io_log w @ ReadExcel p # [], heap := heap w @ []\<rparr>)"
    by (auto simp: rebuild_outcome_def load_latest_def)
  then show ?thesis by blast
next
  case (Inr tbl)
  show ?thesis
  proof (cases "search_columns w = [] \<or> find (\<lambda>col. col \<notin> set (columns tbl)) (search_columns w) \<noteq> None")
    case True
    with assms Inr have "load_latest L w p f =
      (Inl e, w\<lparr>io_log := io_log w @ ReadExcel p # [], heap := heap w @ [fillna tbl]\<rparr>)"
      by (auto simp: rebuild_outcome_def load_latest_def Let_def split: if_splits option.splits)
    then show ?thesis by blast
  next
    case False
    with assms Inr have "load_latest L w p f =
      (Inl e, w\<lparr>io_log := io_log w @ ReadExcel p # [FitTransform],
                 heap := heap w @ [build_table L (search_columns w) tbl]\<rparr>)"
      by (auto simp: rebuild_outcome_def load_latest_def build_table_def Let_def
          split: if_splits option.splits sum.splits)
    then show ?thesis by blast
  qed
qed



lemma ensure_no_files:
  "latest_upload (uploads w) = None \<Longrightarrow> ensure_data_is_cached L w = (Inr (), w)"
  by (simp add: ensure_data_is_cached_def try_body_def)

lemma ensure_hit:
  "latest_upload (uploads w) = Some (name, f) \<Longrightarrow> cache_hit w name
     \<Longrightarrow> ensure_data_is_cached L w = (Inr (), w)"
  by (simp add: ensure_data_is_cached_def try_body_def cache_hit_def)

lemma ensure_miss_ok:
  assumes "latest_upload (uploads w) = Some (name, f)" and "\<not> cache_hit w name"
    and "rebuild_outcome L (search_columns w) (content f) = Inr (d, vz, m)"
  shows "ensure_data_is_cached L w =
           (Inr (), w\<lparr>io_log := io_log w @ [ReadExcel (path_join UPLOAD_DIR name), FitTransform],
                      heap := heap w @ [d],
                      cache := \<lparr>filepath = Some (path_join UPLOAD_DIR name),
                                 df = Some (length (heap w)),
                                 vectorizer = Some vz, matrix = Some m\<rparr>\<rparr>)"
  using assms load_latest_ok [OF assms(3), of "path_join UPLOAD_DIR name"]
  by (auto simp: ensure_data_is_cached_def try_body_def cache_hit_def Let_def)

lemma ensure_miss_fail:
  assumes "latest_upload (uploads w) = Some (name, f)" and "\<not> cache_hit w name"
    and "rebuild_outcome L (search_columns w) (content f) = Inl e"
  shows "\<exists>h es. ensure_data_is_cached L w =
           (Inl (reraised e),
            w\<lparr>io_log := io_log w @ ReadExcel (path_join UPLOAD_DIR name) # es,
              heap := heap w @ h, cache := empty_cache\<rparr>)"
proof -
  obtain h es where "load_latest L w (path_join UPLOAD_DIR name) f =
      (Inl e, w\<lparr>io_log := io_log w @ ReadExcel (path_join UPLOAD_DIR name) # es,
                 heap := heap w @ h\<rparr>)"
    using load_latest_fail [OF assms(3)] by blast
  with assms(1,2) have "ensure_data_is_cached L w =
      (Inl (reraised e),
       w\<lparr>io_log := io_log w @ ReadExcel (path_join UPLOAD_DIR name) # es,
         heap := heap w @ h, cache := empty_cache\<rparr>)"
    by (auto simp: ensure_data_is_cached_def try_body_def cache_hit_def except_handler_def
        reraised_def Let_def)
  then show ?thesis by blast
qed

lemma ensure_failure:
  assumes "ensure_data_is_cached L w = (Inl e, w')"
  shows "cache w' = empty_cache \<and> (\<exists>code detail. e = HTTPException code detail)"
  using assms
  by (auto simp: ensure_data_is_cached_def except_handler_def split: prod.splits sum.splits exn.splits)


lemma find_missing:
  "\<not> list_all (\<lambda>c. c \<in> set cs) cols
     \<Longrightarrow> \<exists>col. find (\<lambda>c. c \<notin> set cs) cols = Some col \<and> col \<in> set cols \<and> col \<notin> set cs"
  by (induction cols) auto


section \<open>Evaluation of the examples\<close>

lemmas demo_simps =
  one_upload_def demo_lib_def ensure_data_is_cached_def
  try_body_def latest_upload_def load_latest_def empty_cache_def inquiries_def fillna_def
  fill_cell_def set_column_def search_texts_def column_values_def cell_of_def astype_str_def
  path_join_def UPLOAD_DIR_def text_length_def Let_def except_handler_def

lemma cached_world_eq:
  "cached_world =
     one_upload\<lparr>io_log := [ReadExcel ''uploads/a.xlsx'', FitTransform],
                heap := [build_table demo_lib [''title''] inquiries],
                cache := \<lparr>filepath = Some ''uploads/a.xlsx'', df = Some 0,
                           vectorizer = Some (), matrix = Some [2, 4, 2]\<rparr>\<rparr>"
  by (simp add: cached_world_def build_table_def demo_simps)


section \<open>Selecting and ranking\<close>


lemma select_target_unfiltered:
  "functional_area = None \<or> functional_area = Some [] \<or> functional_area = Some ALL_AREAS
     \<Longrightarrow> select_target w a functional_area
          = (Inr (length (heap w)), w\<lparr>heap := heap w @ [heap w ! a]\<rparr>)"
  by (auto simp: select_target_def Let_def)

lemma select_target_named:
  "area \<noteq> [] \<Longrightarrow> area \<noteq> ALL_AREAS \<Longrightarrow> CATEGORY_COLUMN \<in> set (columns (heap w ! a))
     \<Longrightarrow> select_target w a (Some area)
          = (Inr (Suc (length (heap w))),
             w\<lparr>heap := heap w @ [heap w ! a, filter_rows (heap w ! a) CATEGORY_COLUMN area]\<rparr>)"
  by (simp add: select_target_def Let_def)

lemma select_target_no_column:
  "area \<noteq> [] \<Longrightarrow> area \<noteq> ALL_AREAS \<Longrightarrow> CATEGORY_COLUMN \<notin> set (columns (heap w ! a))
     \<Longrightarrow> select_target w a (Some area)
          = (Inl (HTTPException 400 MSG_SEARCH_NO_COLUMN), w\<lparr>heap := heap w @ [heap w ! a]\<rparr>)"
  by (simp add: select_target_def Let_def)

lemma select_target_ok:
  assumes "select_target w a functional_area = (Inr t, w2)"
  shows "\<exists>hs. w2 = w\<lparr>heap := heap w @ hs\<rparr> \<and> t < length (heap w @ hs) \<and> length (heap w) \<le> t
           \<and> (heap w @ hs) ! t = (heap w ! a)\<lparr>rows := candidates (heap w ! a) functional_area\<rparr>"
proof (cases "functional_area = None \<or> functional_area = Some [] \<or> functional_area = Some ALL_AREAS")
  case True
  from select_target_unfiltered [OF this, of w a] assms
  have "w2 = w\<lparr>heap := heap w @ [heap w ! a]\<rparr>" "t = length (heap w)" by simp_all
  moreover from True have "candidates (heap w ! a) functional_area = rows (heap w ! a)"
    by (auto simp: candidates_def)
  ultimately show ?thesis by (intro exI [of _ "[heap w ! a]"]) simp
next
  case False
  then obtain area where area: "functional_area = Some area" "area \<noteq> []" "area \<noteq> ALL_AREAS"
    by (cases functional_area) auto
  show ?thesis
  proof (cases "CATEGORY_COLUMN \<in> set (columns (heap w ! a))")
    case True
    from select_target_named [OF area(2,3) True] assms area(1)
    have "w2 = w\<lparr>heap := heap w @ [heap w ! a, filter_rows (heap w ! a) CATEGORY_COLUMN area]\<rparr>"
      "t = Suc (length (heap w))" by simp_all
    moreover have "candidates (heap w ! a) functional_area
        = rows (filter_rows (heap w ! a) CATEGORY_COLUMN area)"
      using area by (simp add: candidates_def)
    ultimately show ?thesis
      by (intro exI [of _ "[heap w ! a, filter_rows (heap w ! a) CATEGORY_COLUMN area]"])
        (simp add: nth_append filter_rows_def)
  next
    case False
    from select_target_no_column [OF area(2,3) False] assms area(1) show ?thesis by simp
  qed
qed

lemma select_target_error:
  assumes "select_target w a functional_area = (Inl e, w2)"
  shows "\<exists>hs. w2 = w\<lparr>heap := heap w @ hs\<rparr>"
  using assms
  by (auto simp: select_target_def Let_def split: option.splits if_splits
      intro: exI [of _ "[heap w ! a]"])

lemma rank_results_state:
  "\<exists>d'. snd (rank_results L w t vz m keywords) = w\<lparr>heap := (heap w)[t := d']\<rparr>"
proof -
  have "w = w\<lparr>heap := (heap w)[t := heap w ! t]\<rparr>" by simp
  then show ?thesis
    unfolding rank_results_def Let_def
    by (auto split: sum.splits simp del: list_update_id)
qed



lemma zip_with_image: "zip xs (map f xs) = map (\<lambda>x. (x, f x)) xs"
  by (induction xs) auto

lemma rows_scored_column:
  "rows (set_column d ''similarity'' (map Num (map fst (scored L q vs (rows d)))))
     = map (\<lambda>(i, r). (i, dict_set ''similarity'' (Num (cosine_similarity L q (vs ! i))) r)) (rows d)"
proof -
  have "map Num (map fst (scored L q vs (rows d)))
          = map (\<lambda>p. Num (cosine_similarity L q (vs ! fst p))) (rows d)"
    by (simp add: scored_def comp_def case_prod_unfold)
  then show ?thesis
    by (simp add: set_column_def zip_with_image comp_def case_prod_unfold)
qed

lemma scores_are_keys:
  "map (cosine_similarity L q) (map (\<lambda>i. vs ! i) (map fst cands)) = map fst (scored L q vs cands)"
  by (simp add: scored_def comp_def case_prod_unfold)

text \<open>What a successful ranking returns, in terms of the indexer.\<close>

lemma rank_results_value:
  assumes "t < length (heap w)"
    and "\<not> df_empty (heap w ! t)"
    and "transform L v keywords = Inr q"
    and "fst (rank_results L w t (Some v) (Some vs) keywords) = Inr res"
  shows "res = map (\<lambda>i. snd (scored L q vs (rows (heap w ! t)) ! i))
                 (take 100 (argsort_desc L (map fst (scored L q vs (rows (heap w ! t))))))
       \<and> list_all (\<lambda>i. i < length (rows (heap w ! t)))
            (argsort_desc L (map fst (scored L q vs (rows (heap w ! t)))))"
proof -
  let ?d = "heap w ! t"
  let ?sc = "scored L q vs (rows ?d)"
  let ?idx = "argsort_desc L (map fst ?sc)"
  let ?rows' = "map (\<lambda>(i, r). (i, dict_set ''similarity'' (Num (cosine_similarity L q (vs ! i))) r)) (rows ?d)"
  have slice: "slice_matrix (Some vs) (map fst (rows ?d)) = Inr (map (\<lambda>i. vs ! i) (map fst (rows ?d)))"
    using assms(2,4) by (auto simp: rank_results_def slice_matrix_def Let_def split: if_splits)
  have ok: "list_all (\<lambda>i. i < length (rows ?d)) ?idx"
    and res: "res = map snd (take 100 (map (\<lambda>i. ?rows' ! i) ?idx))"
    using assms
    by (auto simp: rank_results_def Let_def slice py_transform_def sort_values_desc_def
        rows_scored_column scores_are_keys to_dict_records_def head_def
        simp del: map_map split: if_splits)
  have "snd (?rows' ! i) = snd (?sc ! i)" if "i < length (rows ?d)" for i
    using that by (simp add: scored_def case_prod_unfold)
  with ok have "map (\<lambda>i. snd (?rows' ! i)) (take 100 ?idx) = map (\<lambda>i. snd (?sc ! i)) (take 100 ?idx)"
    by (auto simp: list_all_iff dest: in_set_takeD)
  with res ok show ?thesis by (simp add: take_map comp_def)
qed



lemma search_unfold:
  assumes "uploads w \<noteq> []" and "ensure_data_is_cached L w = (Inr (), w1)"
    and "df (cache w1) = Some a"
  shows "search_inquiries L w keywords functional_area =
           (case select_target w1 a functional_area of
              (Inl e, w2) \<Rightarrow> (Inl e, w2)
            | (Inr t, w2) \<Rightarrow>
                rank_results L w2 t (vectorizer (cache w1)) (matrix (cache w1)) keywords)"
  using assms by (simp add: search_inquiries_def)

lemma search_success:
  assumes "fst (search_inquiries L w keywords functional_area) = Inr res"
  obtains w1 a t w2 where "uploads w \<noteq> []" and "ensure_data_is_cached L w = (Inr (), w1)"
    and "df (cache w1) = Some a" and "select_target w1 a functional_area = (Inr t, w2)"
    and "fst (rank_results L w2 t (vectorizer (cache w1)) (matrix (cache w1)) keywords) = Inr res"
  using assms
  by (auto simp: search_inquiries_def split: if_splits prod.splits sum.splits option.splits)

lemma cell_of_dict_set: "k \<noteq> c \<Longrightarrow> cell_of (dict_set k v r) c = cell_of r c"
  by (induction r) (auto simp: cell_of_def)

lemma rank_results_rows:
  assumes "t < length (heap w)"
    and "fst (rank_results L w t vz m keywords) = Inr res"
    and "r \<in> set res"
  shows "\<exists>i r0 s. (i, r0) \<in> set (rows (heap w ! t)) \<and> r = dict_set ''similarity'' (Num s) r0"
proof (cases "df_empty (heap w ! t)")
  case True
  with assms(2,3) show ?thesis by (simp add: rank_results_def)
next
  case False
  from False assms(2) obtain vs where m: "m = Some vs"
    by (cases m) (auto simp: rank_results_def slice_matrix_def)
  from False assms(2) m obtain v where vz: "vz = Some v"
    by (cases vz) (auto simp: rank_results_def py_transform_def Let_def split: sum.splits)
  from False assms(2) m vz obtain q where q: "transform L v keywords = Inr q"
    by (cases "transform L v keywords")
      (auto simp: rank_results_def py_transform_def Let_def split: sum.splits)
  let ?sc = "scored L q vs (rows (heap w ! t))"
  let ?idx = "argsort_desc L (map fst ?sc)"
  from rank_results_value [OF assms(1) False q] assms(2) m vz
  have res: "res = map (\<lambda>i. snd (?sc ! i)) (take 100 ?idx)"
    and ok: "list_all (\<lambda>i. i < length (rows (heap w ! t))) ?idx"
    by simp_all
  from assms(3) res obtain i where i: "i \<in> set (take 100 ?idx)" "r = snd (?sc ! i)"
    by auto
  from i(1) ok have lt: "i < length (rows (heap w ! t))"
    by (auto simp: list_all_iff dest: in_set_takeD)
  obtain j r0 where p: "rows (heap w ! t) ! i = (j, r0)"
    by (cases "rows (heap w ! t) ! i") auto
  with lt have "(j, r0) \<in> set (rows (heap w ! t))"
    by (metis nth_mem)
  moreover from lt p i(2)
  have "r = dict_set ''similarity'' (Num (cosine_similarity L q (vs ! j))) r0"
    by (simp add: scored_def)
  ultimately show ?thesis by blast
qed


lemma similarity_is_not_category: "''similarity'' \<noteq> CATEGORY_COLUMN"
  by (simp add: CATEGORY_COLUMN_def)


section \<open>Sorting\<close>


lemma mset_insert_asc: "mset (insert_asc x xs) = add_mset x (mset xs)"
  by (induction xs) auto

lemma mset_insert_desc: "mset (insert_desc x xs) = add_mset x (mset xs)"
  by (induction xs) auto

lemma mset_foldr_insert_asc: "mset (foldr insert_asc xs []) = mset xs"
  by (induction xs) (auto simp: mset_insert_asc)

lemma mset_stable_sort_desc: "mset (stable_sort_desc xs) = mset xs"
  unfolding stable_sort_desc_def by (induction xs) (auto simp: mset_insert_desc)

lemma set_insert_asc: "set (insert_asc x xs) = insert x (set xs)"
  by (induction xs) auto

lemma set_insert_desc: "set (insert_desc x xs) = insert x (set xs)"
  by (induction xs) auto

lemma sorted_insert_asc:
  "sorted_wrt (\<lambda>a b. fst a \<le> fst b) xs \<Longrightarrow> sorted_wrt (\<lambda>a b. fst a \<le> fst b) (insert_asc x xs)"
  by (induction xs) (auto simp: set_insert_asc)

lemma sorted_insert_desc:
  "sorted_wrt (\<lambda>a b. fst b \<le> fst a) xs \<Longrightarrow> sorted_wrt (\<lambda>a b. fst b \<le> fst a) (insert_desc x xs)"
  by (induction xs) (auto simp: set_insert_desc)

lemma sorted_foldr_insert_asc: "sorted_wrt (\<lambda>a b. fst a \<le> fst b) (foldr insert_asc xs [])"
  by (induction xs) (auto simp: sorted_insert_asc)

lemma sorted_stable_sort_desc: "sorted_wrt (\<lambda>a b. fst b \<le> fst a) (stable_sort_desc xs)"
  unfolding stable_sort_desc_def by (induction xs) (auto simp: sorted_insert_desc)

text \<open>A sorted arrangement of the keys paired with their positions is an indexer.\<close>

lemma indexer_of_sorted_pairs:
  assumes "mset ps = mset (zip keys [0..<length keys])"
    and "sorted_wrt (\<lambda>a b. fst b \<le> fst a) ps"
  shows "mset (map snd ps) = mset [0..<length keys]
       \<and> sorted_wrt (\<lambda>i j. keys ! j \<le> keys ! i) (map snd ps)"
proof -
  have "mset (map snd ps) = mset (map snd (zip keys [0..<length keys]))"
    using assms(1) by (metis mset_map)
  then have perm: "mset (map snd ps) = mset [0..<length keys]" by simp
  have "set ps = set (zip keys [0..<length keys])"
    using assms(1) by (metis set_mset_mset)
  then have key: "fst p = keys ! snd p" if "p \<in> set ps" for p
    using that by (auto simp: set_zip)
  have "sorted_wrt (\<lambda>a b. keys ! snd b \<le> keys ! snd a) ps"
  proof (rule sorted_wrt_mono_rel [OF _ assms(2)])
    fix x y
    assume "x \<in> set ps" and "y \<in> set ps" and "fst y \<le> fst x"
    then show "keys ! snd y \<le> keys ! snd x"
      using key [of x] key [of y] by simp
  qed
  then have "sorted_wrt (\<lambda>i j. keys ! j \<le> keys ! i) (map snd ps)"
    by (simp add: sorted_wrt_map)
  with perm show ?thesis by simp
qed

lemma stable_argsort_desc_contract:
  "mset (stable_argsort_desc keys) = mset [0..<length keys]
   \<and> sorted_wrt (\<lambda>i j. keys ! j \<le> keys ! i) (stable_argsort_desc keys)"
  unfolding stable_argsort_desc_def
  by (rule indexer_of_sorted_pairs) (simp_all add: mset_stable_sort_desc sorted_stable_sort_desc)

lemma reversed_argsort_contract:
  "mset (reversed_argsort keys) = mset [0..<length keys]
   \<and> sorted_wrt (\<lambda>i j. keys ! j \<le> keys ! i) (reversed_argsort keys)"
proof -
  let ?ps = "rev (foldr insert_asc (zip keys [0..<length keys]) [])"
  have "mset ?ps = mset (zip keys [0..<length keys])"
    by (simp add: mset_foldr_insert_asc)
  moreover have "sorted_wrt (\<lambda>a b. fst b \<le> fst a) ?ps"
    using sorted_foldr_insert_asc [of "zip keys [0..<length keys]"]
    by (simp add: sorted_wrt_rev)
  ultimately have "mset (map snd ?ps) = mset [0..<length keys]
       \<and> sorted_wrt (\<lambda>i j. keys ! j \<le> keys ! i) (map snd ?ps)"
    by (rule indexer_of_sorted_pairs)
  then show ?thesis by (simp add: reversed_argsort_def rev_map)
qed

lemma sort_contract_demo_lib: "sort_contract demo_lib"
  by (simp add: sort_contract_def demo_lib_def stable_argsort_desc_contract)

lemma sort_contract_demo_lib_rev: "sort_contract demo_lib_rev"
  by (simp add: sort_contract_def demo_lib_rev_def reversed_argsort_contract)

text \<open>Rows taken at the positions of an indexer: the same rows, in the order of the keys.\<close>

lemma take_by_indexer:
  assumes "mset idx = mset [0..<length xs]"
  shows "mset (map (\<lambda>i. xs ! i) idx) = mset xs"
proof -
  have "mset (map (\<lambda>i. xs ! i) idx) = image_mset (\<lambda>i. xs ! i) (mset idx)" by simp
  also have "\<dots> = image_mset (\<lambda>i. xs ! i) (mset [0..<length xs])" by (simp add: assms)
  also have "\<dots> = mset (map (\<lambda>i. xs ! i) [0..<length xs])" by simp
  also have "\<dots> = mset xs" by (simp add: map_nth)
  finally show ?thesis .
qed


lemma indexer_in_range:
  assumes "mset idx = mset [0..<n]" and "i \<in> set idx"
  shows "i < n"
proof -
  from assms(1) have "set idx = set [0..<n]" by (metis set_mset_mset)
  with assms(2) show ?thesis by simp
qed

lemma ranked_by_indexer:
  assumes perm: "mset idx = mset [0..<length sc]"
    and desc: "sorted_wrt (\<lambda>i j. map fst sc ! j \<le> map fst sc ! i) idx"
  shows "mset (map (\<lambda>i. sc ! i) idx) = mset sc
       \<and> sorted_wrt (\<lambda>x y. fst y \<le> fst x) (map (\<lambda>i. sc ! i) idx)"
proof -
  have "sorted_wrt (\<lambda>i j. fst (sc ! j) \<le> fst (sc ! i)) idx"
  proof (rule sorted_wrt_mono_rel [OF _ desc])
    fix i j
    assume "i \<in> set idx" and "j \<in> set idx" and "map fst sc ! j \<le> map fst sc ! i"
    moreover from \<open>i \<in> set idx\<close> perm have "i < length sc" by (rule indexer_in_range [rotated])
    moreover from \<open>j \<in> set idx\<close> perm have "j < length sc" by (rule indexer_in_range [rotated])
    ultimately show "fst (sc ! j) \<le> fst (sc ! i)" by simp
  qed
  then have "sorted_wrt (\<lambda>x y. fst y \<le> fst x) (map (\<lambda>i. sc ! i) idx)"
    by (simp add: sorted_wrt_map)
  with take_by_indexer [OF perm] show ?thesis by simp
qed




lemma set_stable_sort_desc: "set (stable_sort_desc xs) = set xs"
  by (metis mset_stable_sort_desc set_mset_mset)

lemma insert_desc_map:
  assumes "fst (g x) = fst x" and "list_all (\<lambda>y. fst (g y) = fst y) ys"
  shows "map g (insert_desc x ys) = insert_desc (g x) (map g ys)"
  using assms by (induction ys) auto

lemma stable_sort_desc_map:
  assumes "list_all (\<lambda>p. fst (g p) = fst p) ps"
  shows "map g (stable_sort_desc ps) = stable_sort_desc (map g ps)"
  using assms
proof (induction ps)
  case Nil
  then show ?case by (simp add: stable_sort_desc_def)
next
  case (Cons p ps)
  then have keys: "fst (g p) = fst p" "list_all (\<lambda>p. fst (g p) = fst p) ps"
    by simp_all
  have "list_all (\<lambda>y. fst (g y) = fst y) (stable_sort_desc ps)"
    using keys(2) by (simp add: list_all_iff set_stable_sort_desc)
  from insert_desc_map [OF keys(1) this] Cons.IH [OF keys(2)]
  show ?case by (simp add: stable_sort_desc_def)
qed

text \<open>The stable indexer arranges the rows as the stable sort does.\<close>

lemma stable_indexer:
  "map (\<lambda>i. sc ! i) (stable_argsort_desc (map fst sc)) = stable_sort_desc sc"
proof -
  let ?ps = "zip (map fst sc) [0..<length sc]"
  let ?g = "\<lambda>p. sc ! snd p"
  have "list_all (\<lambda>p. fst (?g p) = fst p) ?ps"
    by (auto simp: list_all_iff set_zip)
  then have "map ?g (stable_sort_desc ?ps) = stable_sort_desc (map ?g ?ps)"
    by (rule stable_sort_desc_map)
  moreover have "map ?g ?ps = sc"
    by (rule nth_equalityI) simp_all
  ultimately show ?thesis
    by (simp add: stable_argsort_desc_def comp_def)
qed

text \<open>
  With a library whose indexer is the stable one, a search that returns records returns
  the ranking as the specification words it.
\<close>

lemma ranking_with_stable_sort:
  assumes stable: "argsort_desc L = stable_argsort_desc"
    and ens: "ensure_data_is_cached L w = (Inr (), w1)"
    and a: "df (cache w1) = Some a"
    and cols: "columns (heap w1 ! a) \<noteq> []"
    and v: "vectorizer (cache w1) = Some v"
    and vs: "matrix (cache w1) = Some vs"
    and q: "transform L v keywords = Inr q"
    and res: "fst (search_inquiries L w keywords functional_area) = Inr res"
  shows "res = spec_ranking (scored L q vs (candidates (heap w1 ! a) functional_area))"
proof -
  let ?cands = "candidates (heap w1 ! a) functional_area"
  let ?sc = "scored L q vs ?cands"
  from res obtain w1' a' t w2 where
    "ensure_data_is_cached L w = (Inr (), w1')" and "df (cache w1') = Some a'"
    and "select_target w1' a' functional_area = (Inr t, w2)"
    and "fst (rank_results L w2 t (vectorizer (cache w1')) (matrix (cache w1')) keywords) = Inr res"
    by (rule search_success)
  with ens a v vs have sel: "select_target w1 a functional_area = (Inr t, w2)"
    and rank: "fst (rank_results L w2 t (Some v) (Some vs) keywords) = Inr res"
    by simp_all
  from select_target_ok [OF sel] obtain hs where
    w2: "w2 = w1\<lparr>heap := heap w1 @ hs\<rparr>" and t: "t < length (heap w1 @ hs)"
    and tgt: "(heap w1 @ hs) ! t = (heap w1 ! a)\<lparr>rows := ?cands\<rparr>"
    by blast
  have t': "t < length (heap w2)" and rows_t: "rows (heap w2 ! t) = ?cands"
    and cols_t: "columns (heap w2 ! t) = columns (heap w1 ! a)"
    using t by (simp_all add: w2 tgt)
  show ?thesis
  proof (cases "df_empty (heap w2 ! t)")
    case True
    with cols have "?cands = []" by (simp add: df_empty_def rows_t cols_t)
    moreover from True rank have "res = []" by (simp add: rank_results_def)
    ultimately show ?thesis
      by (simp add: scored_def spec_ranking_def stable_sort_desc_def)
  next
    case False
    from rank_results_value [OF t' False q rank]
    have "res = map (\<lambda>i. snd (?sc ! i)) (take 100 (stable_argsort_desc (map fst ?sc)))"
      by (simp add: rows_t stable)
    also have "\<dots> = map snd (take 100 (map (\<lambda>i. ?sc ! i) (stable_argsort_desc (map fst ?sc))))"
      by (simp add: take_map comp_def)
    also have "\<dots> = spec_ranking ?sc"
      by (simp only: stable_indexer spec_ranking_def)
    finally show ?thesis .
  qed
qed


section \<open>Runs of the examples\<close>

lemmas search_simps =
  search_inquiries_def select_target_def rank_results_def df_empty_def slice_matrix_def
  py_transform_def sort_values_desc_def head_def to_dict_records_def filter_rows_def
  stable_argsort_desc_def stable_sort_desc_def reversed_argsort_def demo_lib_rev_def
  ALL_AREAS_def CATEGORY_COLUMN_def

lemma ensure_one_upload: "ensure_data_is_cached demo_lib one_upload = (Inr (), cached_world)"
  by (simp add: cached_world_eq) (simp add: build_table_def demo_simps)

lemma ensure_cached_world: "ensure_data_is_cached demo_lib cached_world = (Inr (), cached_world)"
  by (rule ensure_hit [of _ "''a.xlsx''" "\<lparr>ctime = 1, content = Inr inquiries\<rparr>"])
    (simp_all add: cached_world_eq one_upload_def latest_upload_def cache_hit_def path_join_def
      UPLOAD_DIR_def)

lemma cached_table:
  "heap cached_world ! 0 =
     \<lparr>columns = [''title'', CATEGORY_COLUMN, ''search_text''],
      rows = [(0, [(''title'', Text ''ab''), (CATEGORY_COLUMN, Text ''A''),
                   (''search_text'', Text ''ab'')]),
              (1, [(''title'', Text ''abcd''), (CATEGORY_COLUMN, Text []),
                   (''search_text'', Text ''abcd'')]),
              (2, [(''title'', Text ''xy''), (CATEGORY_COLUMN, Text ''B''),
                   (''search_text'', Text ''xy'')])]\<rparr>"
  by (simp add: cached_world_eq build_table_def demo_simps CATEGORY_COLUMN_def)

lemma ensure_plain_upload:
  "ensure_data_is_cached demo_lib plain_upload
     = (Inr (),
        plain_upload\<lparr>io_log := [ReadExcel ''uploads/b.xlsx'', FitTransform],
                      heap := [\<lparr>columns = [''title'', ''search_text''],
                                rows = [(0, [(''title'', Text ''new''),
                                             (''search_text'', Text ''new'')])]\<rparr>],
                      cache := \<lparr>filepath = Some ''uploads/b.xlsx'', df = Some 0,
                                 vectorizer = Some (), matrix = Some [3]\<rparr>\<rparr>)"
  by (simp add: plain_upload_def replaced_file_def demo_simps)

lemma search_category_B:
  "fst (search_inquiries demo_lib one_upload ''zz'' (Some ''B''))
     = Inr [[(''title'', Text ''xy''), (CATEGORY_COLUMN, Text ''B''),
             (''search_text'', Text ''xy''), (''similarity'', Num 0)]]"
  by (simp add: search_simps demo_simps)


lemma second_upload_eq:
  "second_upload =
     cached_world\<lparr>uploads := [(''a.xlsx'', \<lparr>ctime = 1, content = Inr inquiries\<rparr>),
                              (''b.xlsx'', \<lparr>ctime = 2, content = content replaced_file\<rparr>)],
                  cache := empty_cache\<rparr>"
  by (simp add: second_upload_def upload_file_def cached_world_eq one_upload_def)

lemma search_after_second_upload:
  "fst (search_inquiries demo_lib (after_searches demo_lib second_upload [(''zz'', None)])
          ''new'' None)
     = Inr [[(''title'', Text ''new''), (''search_text'', Text ''new''), (''similarity'', Num 0)]]"
  by (simp add: second_upload_eq cached_world_eq replaced_file_def search_simps demo_simps
      build_table_def)


lemma ensure_one_upload_rev:
  "ensure_data_is_cached demo_lib_rev one_upload = (Inr (), cached_world)"
  by (simp add: cached_world_eq) (simp add: build_table_def demo_simps demo_lib_rev_def)

lemma search_reversed_ties:
  "fst (search_inquiries demo_lib_rev one_upload ''zz'' None)
     = Inr [[(''title'', Text ''xy''), (CATEGORY_COLUMN, Text ''B''),
             (''search_text'', Text ''xy''), (''similarity'', Num 0)],
            [(''title'', Text ''ab''), (CATEGORY_COLUMN, Text ''A''),
             (''search_text'', Text ''ab''), (''similarity'', Num 0)],
            [(''title'', Text ''abcd''), (CATEGORY_COLUMN, Text []),
             (''search_text'', Text ''abcd''), (''similarity'', Num (- 2))]]"
  by (simp add: search_simps demo_simps)

lemma scored_cached_table:
  "scored demo_lib_rev 2 [2, 4, 2] (candidates (heap cached_world ! 0) None)
     = [(0, [(''title'', Text ''ab''), (CATEGORY_COLUMN, Text ''A''),
             (''search_text'', Text ''ab''), (''similarity'', Num 0)]),
        (- 2, [(''title'', Text ''abcd''), (CATEGORY_COLUMN, Text []),
               (''search_text'', Text ''abcd''), (''similarity'', Num (- 2))]),
        (0, [(''title'', Text ''xy''), (CATEGORY_COLUMN, Text ''B''),
             (''search_text'', Text ''xy''), (''similarity'', Num 0)])]"
  by (simp add: cached_table candidates_def scored_def demo_lib_rev_def demo_lib_def
      CATEGORY_COLUMN_def)



lemma tied_upload_eq:
  "tied_upload =
     cached_world\<lparr>uploads := [(''a.xlsx'', \<lparr>ctime = 1, content = Inr inquiries\<rparr>),
                              (''b.xlsx'', \<lparr>ctime = 1, content = content replaced_file\<rparr>)],
                  cache := empty_cache\<rparr>"
  by (simp add: tied_upload_def upload_file_def cached_world_eq one_upload_def)

lemma search_after_tied_upload:
  "fst (search_inquiries demo_lib tied_upload ''zz'' None)
     = Inr [[(''title'', Text ''ab''), (CATEGORY_COLUMN, Text ''A''),
             (''search_text'', Text ''ab''), (''similarity'', Num 0)],
            [(''title'', Text ''xy''), (CATEGORY_COLUMN, Text ''B''),
             (''search_text'', Text ''xy''), (''similarity'', Num 0)],
            [(''title'', Text ''abcd''), (CATEGORY_COLUMN, Text []),
             (''search_text'', Text ''abcd''), (''similarity'', Num (- 2))]]"
  by (simp add: tied_upload_eq cached_world_eq search_simps demo_simps build_table_def)


section \<open>After an upload\<close>


lemma map_of_dict_set: "map_of (dict_set k v r) k = Some v"
  by (induction r) auto

lemma derived_fromI:
  "(i, r0) \<in> set (rows d) \<Longrightarrow> derived_from d (dict_set ''similarity'' v r0)"
  by (auto simp: derived_from_def list_ex_iff map_of_dict_set intro!: bexI [of _ "(i, r0)"])

lemma candidates_subset: "set (candidates d functional_area) \<subseteq> set (rows d)"
  by (auto simp: candidates_def filter_rows_def split: option.splits)

lemma max_by_newest:
  assumes "best = x \<or> x \<in> set xs"
    and "best = x \<or> k best < k x"
    and "list_all (\<lambda>p. p = x \<or> k p < k x) xs"
  shows "max_by k best xs = x"
  using assms
proof (induction xs arbitrary: best)
  case Nil
  then show ?case by simp
next
  case (Cons y ys)
  show ?case
  proof (cases "k best < k y")
    case True
    have "max_by k y ys = x"
    proof (rule Cons.IH)
      show "y = x \<or> x \<in> set ys"
        using Cons.prems(1,3) True by auto
      show "y = x \<or> k y < k x"
        using Cons.prems(3) by simp
      show "list_all (\<lambda>p. p = x \<or> k p < k x) ys"
        using Cons.prems(3) by simp
    qed
    with True show ?thesis by simp
  next
    case False
    have "max_by k best ys = x"
    proof (rule Cons.IH)
      show "best = x \<or> x \<in> set ys"
        using Cons.prems False by auto
      show "best = x \<or> k best < k x"
        using Cons.prems(2) .
      show "list_all (\<lambda>p. p = x \<or> k p < k x) ys"
        using Cons.prems(3) by simp
    qed
    with False show ?thesis by simp
  qed
qed

lemma latest_upload_newest:
  assumes "x \<in> set files"
    and "list_all (\<lambda>p. p = x \<or> ctime (snd p) < ctime (snd x)) files"
  shows "latest_upload files = Some x"
proof (cases files)
  case Nil
  with assms(1) show ?thesis by simp
next
  case (Cons p ps)
  have "max_by (\<lambda>q. ctime (snd q)) p ps = x"
    using assms Cons by (intro max_by_newest) auto
  with Cons show ?thesis by (simp add: latest_upload_def)
qed

lemma written_file_listed: "(name, f) \<in> set (write_file files name f)"
  by (induction files) auto



lemma search_state:
  "\<exists>h. snd (search_inquiries L w keywords functional_area)
          = (snd (ensure_data_is_cached L w))\<lparr>heap := h\<rparr>
       \<and> take (length (heap (snd (ensure_data_is_cached L w)))) h
          = heap (snd (ensure_data_is_cached L w))"
proof -
  let ?w' = "snd (search_inquiries L w keywords functional_area)"
  obtain x w1 where ens: "ensure_data_is_cached L w = (x, w1)"
    by (cases "ensure_data_is_cached L w") auto
  have "\<exists>h. ?w' = w1\<lparr>heap := h\<rparr> \<and> take (length (heap w1)) h = heap w1"
  proof (cases "uploads w = []")
    case True
    then have "ensure_data_is_cached L w = (Inr (), w)"
      by (simp add: ensure_no_files latest_upload_def)
    with ens have "w1 = w" by simp
    with True show ?thesis
      by (intro exI [of _ "heap w"]) (simp add: search_inquiries_def)
  next
    case False
    show ?thesis
    proof (cases x)
      case (Inl e)
      with False ens show ?thesis
        by (intro exI [of _ "heap w1"]) (simp add: search_inquiries_def)
    next
      case (Inr u)
      with ens have ens': "ensure_data_is_cached L w = (Inr (), w1)" by simp
      show ?thesis
      proof (cases "df (cache w1)")
        case None
        with False ens' show ?thesis
          by (intro exI [of _ "heap w1"]) (simp add: search_inquiries_def)
      next
        case (Some a)
        note unfold = search_unfold [OF False ens' Some]
        obtain y w2 where sel: "select_target w1 a functional_area = (y, w2)"
          by (cases "select_target w1 a functional_area") auto
        show ?thesis
        proof (cases y)
          case (Inl e)
          with sel select_target_error obtain hs where "w2 = w1\<lparr>heap := heap w1 @ hs\<rparr>"
            by blast
          with unfold sel Inl show ?thesis
            by (intro exI [of _ "heap w1 @ hs"]) simp
        next
          case (Inr t)
          with sel select_target_ok obtain hs where
            w2: "w2 = w1\<lparr>heap := heap w1 @ hs\<rparr>" and t: "length (heap w1) \<le> t"
            by blast
          obtain d' where "snd (rank_results L w2 t (vectorizer (cache w1)) (matrix (cache w1))
              keywords) = w2\<lparr>heap := (heap w2)[t := d']\<rparr>"
            using rank_results_state by blast
          with unfold sel Inr w2 have "?w' = w1\<lparr>heap := (heap w1 @ hs)[t := d']\<rparr>"
            by simp
          moreover from t have "take (length (heap w1)) ((heap w1 @ hs)[t := d']) = heap w1"
            by simp
          ultimately show ?thesis by blast
        qed
      qed
    qed
  qed
  with ens show ?thesis by simp
qed

lemma ensure_serves:
  assumes inv: "serves_upload cols (name, f) d w"
    and tbl: "read_excel L (content f) = Inr tbl"
    and d: "d = build_table L cols tbl"
  shows "serves_upload cols (name, f) d (snd (ensure_data_is_cached L w))"
proof -
  from inv have latest: "latest_upload (uploads w) = Some (name, f)"
    and cols: "search_columns w = cols"
    by (simp_all add: serves_upload_def)
  show ?thesis
  proof (cases "cache_hit w name")
    case True
    with ensure_hit [OF latest True] inv show ?thesis by simp
  next
    case False
    show ?thesis
    proof (cases "rebuild_outcome L (search_columns w) (content f)")
      case (Inl e)
      from ensure_miss_fail [OF latest False Inl] latest cols show ?thesis
        by (auto simp: serves_upload_def empty_cache_def)
    next
      case (Inr r)
      obtain d' vz m where r: "r = (d', vz, m)" by (cases r) auto
      with Inr tbl cols d have "d' = d"
        by (auto simp: rebuild_outcome_def split: if_splits option.splits sum.splits)
      with ensure_miss_ok [OF latest False Inr [unfolded r]] latest cols show ?thesis
        by (simp add: serves_upload_def)
    qed
  qed
qed

lemma search_serves:
  assumes "serves_upload cols (name, f) d w"
    and "read_excel L (content f) = Inr tbl"
    and "d = build_table L cols tbl"
  shows "serves_upload cols (name, f) d (snd (search_inquiries L w keywords functional_area))"
proof -
  let ?w1 = "snd (ensure_data_is_cached L w)"
  have inv1: "serves_upload cols (name, f) d ?w1"
    using assms by (rule ensure_serves)
  obtain h where w': "snd (search_inquiries L w keywords functional_area) = ?w1\<lparr>heap := h\<rparr>"
    and h: "take (length (heap ?w1)) h = heap ?w1"
    using search_state by blast
  have len: "length (heap ?w1) \<le> length h"
  proof -
    have "length (take (length (heap ?w1)) h) = length (heap ?w1)"
      by (simp only: h)
    then show ?thesis by simp
  qed
  have "h ! a = heap ?w1 ! a" if "a < length (heap ?w1)" for a
    using that h by (metis nth_take)
  with inv1 len show ?thesis
    by (auto simp: serves_upload_def w' split: option.splits)
qed

lemma after_searches_serves:
  assumes "serves_upload cols (name, f) d w"
    and "read_excel L (content f) = Inr tbl"
    and "d = build_table L cols tbl"
  shows "serves_upload cols (name, f) d (after_searches L w qs)"
  using assms(1)
proof (induction qs arbitrary: w)
  case Nil
  then show ?case by simp
next
  case (Cons q qs)
  from search_serves [OF Cons.prems assms(2,3)]
  have "serves_upload cols (name, f) d (snd (search_inquiries L w (fst q) (snd q)))" .
  then show ?case by (simp add: Cons.IH)
qed

lemma search_rows_served:
  assumes inv: "serves_upload cols (name, f) d w"
    and tbl: "read_excel L (content f) = Inr tbl"
    and d: "d = build_table L cols tbl"
    and res: "fst (search_inquiries L w keywords functional_area) = Inr res"
  shows "list_all (derived_from d) res"
proof -
  from res obtain w1 a t w2 where
    ens: "ensure_data_is_cached L w = (Inr (), w1)" and a: "df (cache w1) = Some a"
    and sel: "select_target w1 a functional_area = (Inr t, w2)"
    and rank: "fst (rank_results L w2 t (vectorizer (cache w1)) (matrix (cache w1)) keywords)
                 = Inr res"
    by (rule search_success)
  from ensure_serves [OF inv tbl d] ens have "serves_upload cols (name, f) d w1" by simp
  with a have cached: "heap w1 ! a = d" by (simp add: serves_upload_def)
  from select_target_ok [OF sel] obtain hs where
    w2: "w2 = w1\<lparr>heap := heap w1 @ hs\<rparr>" and t: "t < length (heap w1 @ hs)"
    and tgt: "(heap w1 @ hs) ! t = (heap w1 ! a)\<lparr>rows := candidates (heap w1 ! a) functional_area\<rparr>"
    by blast
  have rows_t: "rows (heap w2 ! t) = candidates d functional_area"
    by (simp add: w2 tgt cached)
  have "derived_from d r" if "r \<in> set res" for r
  proof -
    from t have "t < length (heap w2)" by (simp add: w2)
    from rank_results_rows [OF this rank that] obtain i r0 s where
      "(i, r0) \<in> set (rows (heap w2 ! t))" and r: "r = dict_set ''similarity'' (Num s) r0"
      by blast
    then have "(i, r0) \<in> set (rows d)"
      using candidates_subset [of d functional_area] by (auto simp: rows_t)
    then show ?thesis unfolding r by (rule derived_fromI)
  qed
  then show ?thesis by (simp add: list_all_iff)
qed


section \<open>The order of the results\<close>

text \<open>
  C1, as amended. When a search returns records, they are the first 100, or all if
  there are fewer, of an arrangement of the filtered rows, each with its score added,
  in which the scores descend. The arrangement is the one the library's sort makes;
  of a sort called as the source calls it, with the default \<^verbatim>\<open>kind\<close>, only that much is
  promised, and how rows of equal score follow each other is left to it. The table is
  taken to have a column, as every table a rebuild caches has.
\<close>

theorem ranking_descending_top_100:
  assumes contract: "sort_contract L"
    and ens: "ensure_data_is_cached L w = (Inr (), w1)"
    and a: "df (cache w1) = Some a"
    and cols: "columns (heap w1 ! a) \<noteq> []"
    and v: "vectorizer (cache w1) = Some v"
    and vs: "matrix (cache w1) = Some vs"
    and q: "transform L v keywords = Inr q"
    and res: "fst (search_inquiries L w keywords functional_area) = Inr res"
  shows "\<exists>ys. mset ys = mset (scored L q vs (candidates (heap w1 ! a) functional_area))
            \<and> sorted_wrt (\<lambda>x y. fst y \<le> fst x) ys
            \<and> res = map snd (take 100 ys)
            \<and> length res \<le> 100"
proof -
  let ?cands = "candidates (heap w1 ! a) functional_area"
  let ?sc = "scored L q vs ?cands"
  from res obtain w1' a' t w2 where
    "ensure_data_is_cached L w = (Inr (), w1')" and "df (cache w1') = Some a'"
    and "select_target w1' a' functional_area = (Inr t, w2)"
    and "fst (rank_results L w2 t (vectorizer (cache w1')) (matrix (cache w1')) keywords) = Inr res"
    by (rule search_success)
  with ens a v vs have sel: "select_target w1 a functional_area = (Inr t, w2)"
    and rank: "fst (rank_results L w2 t (Some v) (Some vs) keywords) = Inr res"
    by simp_all
  from select_target_ok [OF sel] obtain hs where
    w2: "w2 = w1\<lparr>heap := heap w1 @ hs\<rparr>" and t: "t < length (heap w1 @ hs)"
    and tgt: "(heap w1 @ hs) ! t = (heap w1 ! a)\<lparr>rows := ?cands\<rparr>"
    by blast
  have t': "t < length (heap w2)" and rows_t: "rows (heap w2 ! t) = ?cands"
    and cols_t: "columns (heap w2 ! t) = columns (heap w1 ! a)"
    using t by (simp_all add: w2 tgt)
  show ?thesis
  proof (cases "df_empty (heap w2 ! t)")
    case True
    with cols have "?cands = []" by (simp add: df_empty_def rows_t cols_t)
    moreover from True rank have "res = []" by (simp add: rank_results_def)
    ultimately show ?thesis by (intro exI [of _ "[]"]) (simp add: scored_def)
  next
    case False
    let ?idx = "argsort_desc L (map fst ?sc)"
    let ?ys = "map (\<lambda>i. ?sc ! i) ?idx"
    from rank_results_value [OF t' False q rank]
    have r: "res = map (\<lambda>i. snd (?sc ! i)) (take 100 ?idx)"
      by (simp add: rows_t)
    from contract have "mset ?idx = mset [0..<length (map fst ?sc)]"
      and desc: "sorted_wrt (\<lambda>i j. map fst ?sc ! j \<le> map fst ?sc ! i) ?idx"
      by (simp_all add: sort_contract_def)
    then have perm: "mset ?idx = mset [0..<length ?sc]" by simp
    from ranked_by_indexer [OF perm desc]
    have "mset ?ys = mset ?sc" and "sorted_wrt (\<lambda>x y. fst y \<le> fst x) ?ys"
      by simp_all
    moreover have "res = map snd (take 100 ?ys)"
      by (simp add: r take_map comp_def)
    moreover have "length res \<le> 100"
      by (simp add: r)
    ultimately show ?thesis by blast
  qed
qed

theorem ranking_descending_top_100_witness:
  "\<exists>ys. mset ys = mset (scored demo_lib_rev 2 [2, 4, 2] (candidates (heap cached_world ! 0) None))
      \<and> sorted_wrt (\<lambda>x y. fst y \<le> fst x) ys
      \<and> [[(''title'', Text ''xy''), (CATEGORY_COLUMN, Text ''B''),
           (''search_text'', Text ''xy''), (''similarity'', Num 0)],
          [(''title'', Text ''ab''), (CATEGORY_COLUMN, Text ''A''),
           (''search_text'', Text ''ab''), (''similarity'', Num 0)],
          [(''title'', Text ''abcd''), (CATEGORY_COLUMN, Text []),
           (''search_text'', Text ''abcd''), (''similarity'', Num (- 2))]]
        = map snd (take 100 ys)"
proof -
  have a: "df (cache cached_world) = Some 0"
    and v: "vectorizer (cache cached_world) = Some ()"
    and vs: "matrix (cache cached_world) = Some [2, 4, 2]"
    by (simp_all add: cached_world_eq)
  have cols: "columns (heap cached_world ! 0) \<noteq> []"
    by (simp add: cached_table)
  have q: "transform demo_lib_rev () ''zz'' = Inr 2"
    by (simp add: demo_lib_rev_def demo_lib_def)
  from ranking_descending_top_100 [OF sort_contract_demo_lib_rev ensure_one_upload_rev a cols
        v vs q search_reversed_ties]
  obtain ys where
    "mset ys = mset (scored demo_lib_rev 2 [2, 4, 2] (candidates (heap cached_world ! 0) None))"
    and "sorted_wrt (\<lambda>x y. fst y \<le> fst x) ys"
    and "[[(''title'', Text ''xy''), (CATEGORY_COLUMN, Text ''B''),
           (''search_text'', Text ''xy''), (''similarity'', Num 0)],
          [(''title'', Text ''ab''), (CATEGORY_COLUMN, Text ''A''),
           (''search_text'', Text ''ab''), (''similarity'', Num 0)],
          [(''title'', Text ''abcd''), (CATEGORY_COLUMN, Text []),
           (''search_text'', Text ''abcd''), (''similarity'', Num (- 2))]]
        = map snd (take 100 ys)"
    by (elim exE conjE)
  then show ?thesis by (intro exI conjI)
qed

text \<open>
  C1 as stated fails: it fixes the order of rows of equal score to that of the table,
  which needs a stable sort, and the source asks for none. With an indexer that meets
  the contract by sorting ascending and reading the result backwards, the two rows
  that score 0 for the query come out in the reverse of their order in the table,
  where the specification's ranking keeps them in it.
\<close>

theorem ties_not_in_row_order:
  "sort_contract demo_lib_rev
   \<and> fst (search_inquiries demo_lib_rev one_upload ''zz'' None)
       = Inr [[(''title'', Text ''xy''), (CATEGORY_COLUMN, Text ''B''),
               (''search_text'', Text ''xy''), (''similarity'', Num 0)],
              [(''title'', Text ''ab''), (CATEGORY_COLUMN, Text ''A''),
               (''search_text'', Text ''ab''), (''similarity'', Num 0)],
              [(''title'', Text ''abcd''), (CATEGORY_COLUMN, Text []),
               (''search_text'', Text ''abcd''), (''similarity'', Num (- 2))]]
   \<and> spec_ranking (scored demo_lib_rev 2 [2, 4, 2] (candidates (heap cached_world ! 0) None))
       = [[(''title'', Text ''ab''), (CATEGORY_COLUMN, Text ''A''),
           (''search_text'', Text ''ab''), (''similarity'', Num 0)],
          [(''title'', Text ''xy''), (CATEGORY_COLUMN, Text ''B''),
           (''search_text'', Text ''xy''), (''similarity'', Num 0)],
          [(''title'', Text ''abcd''), (CATEGORY_COLUMN, Text []),
           (''search_text'', Text ''abcd''), (''similarity'', Num (- 2))]]"
proof -
  have "spec_ranking (scored demo_lib_rev 2 [2, 4, 2] (candidates (heap cached_world ! 0) None))
       = [[(''title'', Text ''ab''), (CATEGORY_COLUMN, Text ''A''),
           (''search_text'', Text ''ab''), (''similarity'', Num 0)],
          [(''title'', Text ''xy''), (CATEGORY_COLUMN, Text ''B''),
           (''search_text'', Text ''xy''), (''similarity'', Num 0)],
          [(''title'', Text ''abcd''), (CATEGORY_COLUMN, Text []),
           (''search_text'', Text ''abcd''), (''similarity'', Num (- 2))]]"
    by (simp add: scored_cached_table spec_ranking_def stable_sort_desc_def)
  with sort_contract_demo_lib_rev search_reversed_ties show ?thesis by simp
qed


section \<open>The key of the cache\<close>

text \<open>
  C2, as amended. The cache is keyed by the newest file's path alone. With a file in
  the upload directory, \<^verbatim>\<open>_ensure_data_is_cached\<close> returns without reading anything and
  without changing the state exactly when the cached path is the path of the newest
  file and a table is cached; otherwise it starts a rebuild by reading that file. The
  creation time only selects the newest file and is not part of what is compared.
\<close>

theorem cache_keyed_by_path:
  assumes "latest_upload (uploads w) = Some (name, f)"
  shows "(filepath (cache w) = Some (path_join UPLOAD_DIR name) \<and> df (cache w) \<noteq> None \<longrightarrow>
            ensure_data_is_cached L w = (Inr (), w))
       \<and> (\<not> (filepath (cache w) = Some (path_join UPLOAD_DIR name) \<and> df (cache w) \<noteq> None) \<longrightarrow>
            (\<exists>es. io_log (snd (ensure_data_is_cached L w))
                    = io_log w @ ReadExcel (path_join UPLOAD_DIR name) # es))"
proof -
  have "ensure_data_is_cached L w = (Inr (), w)" if "cache_hit w name"
    using ensure_hit [OF assms that] .
  moreover have "\<exists>es. io_log (snd (ensure_data_is_cached L w))
                    = io_log w @ ReadExcel (path_join UPLOAD_DIR name) # es"
    if miss: "\<not> cache_hit w name"
  proof (cases "rebuild_outcome L (search_columns w) (content f)")
    case (Inl e)
    from ensure_miss_fail [OF assms miss Inl] show ?thesis by auto
  next
    case (Inr r)
    obtain d vz m where "r = (d, vz, m)" by (cases r) auto
    with Inr ensure_miss_ok [OF assms miss, of L d vz m] show ?thesis by auto
  qed
  ultimately show ?thesis by (simp add: cache_hit_def)
qed

theorem cache_keyed_by_path_witness:
  "ensure_data_is_cached demo_lib cached_world = (Inr (), cached_world)
   \<and> io_log (snd (ensure_data_is_cached demo_lib one_upload))
       = [ReadExcel ''uploads/a.xlsx'', FitTransform]"
proof -
  let ?f = "\<lparr>ctime = 1, content = Inr inquiries\<rparr> :: (string + int dataframe) stored_file"
  have a: "latest_upload (uploads cached_world) = Some (''a.xlsx'', ?f)"
    "latest_upload (uploads one_upload) = Some (''a.xlsx'', ?f)"
    by (simp_all add: cached_world_eq one_upload_def latest_upload_def)
  have b: "filepath (cache cached_world) = Some (path_join UPLOAD_DIR ''a.xlsx'')
            \<and> df (cache cached_world) \<noteq> None"
    by (simp add: cached_world_eq path_join_def UPLOAD_DIR_def)
  have c: "\<not> (filepath (cache one_upload) = Some (path_join UPLOAD_DIR ''a.xlsx'')
            \<and> df (cache one_upload) \<noteq> None)"
    by (simp add: one_upload_def empty_cache_def)
  have d: "io_log (snd (ensure_data_is_cached demo_lib one_upload))
       = [ReadExcel ''uploads/a.xlsx'', FitTransform]"
    using cached_world_eq by (simp add: cached_world_def)
  have "ensure_data_is_cached demo_lib cached_world = (Inr (), cached_world)"
    using cache_keyed_by_path [OF a(1), of demo_lib] b by blast
  moreover have "\<exists>es. io_log (snd (ensure_data_is_cached demo_lib one_upload))
                    = io_log one_upload @ ReadExcel (path_join UPLOAD_DIR ''a.xlsx'') # es"
    using cache_keyed_by_path [OF a(2), of demo_lib] c by blast
  ultimately show ?thesis using d by simp
qed

text \<open>
  C2 as stated fails: the identity the claim speaks of includes the time stamp, and a
  difference in the time stamp alone triggers nothing. The cache was built from
  \<^verbatim>\<open>a.xlsx\<close> stamped 1; with that file replaced by one stamped 2 and holding other
  rows, the call is still a hit and leaves the state as it is.
\<close>

theorem cache_ignores_time_stamp:
  "latest_upload (uploads cached_world) = Some (''a.xlsx'', \<lparr>ctime = 1, content = Inr inquiries\<rparr>)
   \<and> filepath (cache cached_world) = Some ''uploads/a.xlsx''
   \<and> latest_upload (uploads touched_world) = Some (''a.xlsx'', replaced_file)
   \<and> ctime replaced_file = 2
   \<and> cache touched_world = cache cached_world
   \<and> ensure_data_is_cached demo_lib touched_world = (Inr (), touched_world)"
proof -
  have a: "latest_upload (uploads touched_world) = Some (''a.xlsx'', replaced_file)"
    by (simp add: touched_world_def latest_upload_def)
  have b: "cache_hit touched_world ''a.xlsx''"
    by (simp add: touched_world_def cached_world_eq cache_hit_def path_join_def UPLOAD_DIR_def)
  show ?thesis
    using ensure_hit [OF a b, of demo_lib]
    by (simp add: a touched_world_def cached_world_eq one_upload_def latest_upload_def
        replaced_file_def)
qed


section \<open>Listing the categories\<close>

text \<open>
  C3. The claim is that \<^verbatim>\<open>get_functional_areas\<close> returns the distinct non-empty values of
  the category column, a row whose category was missing contributing nothing. The code
  calls \<^verbatim>\<open>dropna()\<close> for that, but the table it reads from the cache had its missing
  values replaced by the empty string when it was loaded, so nothing is left to drop:
  on a table whose second row has no category, the empty string is returned among the
  categories.
\<close>

theorem functional_areas_keep_empty_string:
  "fst (get_functional_areas demo_lib one_upload) = Inr [Text ''A'', Text [], Text ''B'']"
  by (simp add: get_functional_areas_def one_upload_def demo_lib_def ensure_data_is_cached_def
      try_body_def latest_upload_def load_latest_def empty_cache_def inquiries_def fillna_def
      fill_cell_def set_column_def search_texts_def column_values_def cell_of_def astype_str_def
      dropna_def CATEGORY_COLUMN_def path_join_def UPLOAD_DIR_def text_length_def Let_def)


section \<open>Failure of a rebuild\<close>

text \<open>
  C4. Whenever \<^verbatim>\<open>_ensure_data_is_cached\<close> fails, the cache it leaves is the empty one
  (path, table, vectorizer and matrix all \<open>None\<close>) and what it raises is an
  \<^verbatim>\<open>HTTPException\<close>, the request-scoped failure of the framework. And a rebuild attempt
  in which parsing, one of the two checks of the configuration, or fitting fails does
  fail: the exception of the failing step is raised again if it is an
  \<^verbatim>\<open>HTTPException\<close> and wrapped in a 500 otherwise.
\<close>

theorem ensure_failure_resets_cache:
  "(\<forall>e. fst (ensure_data_is_cached L w) = Inl e \<longrightarrow>
        cache (snd (ensure_data_is_cached L w)) = empty_cache
        \<and> (\<exists>code detail. e = HTTPException code detail))
   \<and> (\<forall>name f e0. latest_upload (uploads w) = Some (name, f) \<and> \<not> cache_hit w name
          \<and> rebuild_outcome L (search_columns w) (content f) = Inl e0 \<longrightarrow>
        fst (ensure_data_is_cached L w) = Inl (reraised e0))"
proof -
  have "cache (snd (ensure_data_is_cached L w)) = empty_cache
        \<and> (\<exists>code detail. e = HTTPException code detail)"
    if "fst (ensure_data_is_cached L w) = Inl e" for e
  proof -
    from that have "ensure_data_is_cached L w = (Inl e, snd (ensure_data_is_cached L w))"
      by (metis prod.collapse)
    then show ?thesis by (rule ensure_failure)
  qed
  moreover have "fst (ensure_data_is_cached L w) = Inl (reraised e0)"
    if "latest_upload (uploads w) = Some (name, f) \<and> \<not> cache_hit w name
          \<and> rebuild_outcome L (search_columns w) (content f) = Inl e0" for name f e0
    using that ensure_miss_fail [of w name f L e0] by auto
  ultimately show ?thesis by blast
qed

theorem ensure_failure_resets_cache_witness:
  "fst (ensure_data_is_cached demo_lib no_config) = Inl (HTTPException 500 MSG_NO_SEARCH_COLUMNS)
   \<and> cache (snd (ensure_data_is_cached demo_lib no_config)) = empty_cache
   \<and> latest_upload (uploads no_config) = Some (''a.xlsx'', \<lparr>ctime = 1, content = Inr inquiries\<rparr>)
   \<and> \<not> cache_hit no_config ''a.xlsx''
   \<and> rebuild_outcome demo_lib (search_columns no_config) (Inr inquiries)
       = Inl (HTTPException 500 MSG_NO_SEARCH_COLUMNS)"
proof -
  have a: "latest_upload (uploads no_config) = Some (''a.xlsx'', \<lparr>ctime = 1, content = Inr inquiries\<rparr>)"
    by (simp add: no_config_def one_upload_def latest_upload_def)
  have b: "\<not> cache_hit no_config ''a.xlsx''"
    by (simp add: no_config_def one_upload_def cache_hit_def empty_cache_def)
  have c: "rebuild_outcome demo_lib (search_columns no_config) (Inr inquiries)
       = Inl (HTTPException 500 MSG_NO_SEARCH_COLUMNS)"
    by (simp add: no_config_def one_upload_def rebuild_outcome_def demo_lib_def)
  have d: "fst (ensure_data_is_cached demo_lib no_config) = Inl (HTTPException 500 MSG_NO_SEARCH_COLUMNS)"
    using ensure_failure_resets_cache [of demo_lib no_config] a b c
    by (auto simp: reraised_def)
  have e: "cache (snd (ensure_data_is_cached demo_lib no_config)) = empty_cache"
    using ensure_failure_resets_cache [of demo_lib no_config] d by blast
  show ?thesis using a b c d e by simp
qed


section \<open>Searches after a second upload\<close>

text \<open>
  C5, as amended. Whatever the state before, the first upload's table in the cache
  included: when an upload has completed and its file is the newest in the directory,
  every other file bearing an earlier time stamp, the upload has emptied the cache, the
  freshness check selects the uploaded file, and every search from then on, after any
  number of other searches, that returns records returns only rows of the table built
  from the uploaded content, each with its similarity score added.
\<close>

theorem search_after_upload_uses_new_file:
  assumes up: "upload_file w filename data now Written = (r, w2)"
    and newest: "list_all (\<lambda>p. p = (filename, \<lparr>ctime = now, content = data\<rparr>) \<or> ctime (snd p) < now)
                   (uploads w2)"
    and valid: "read_excel L data = Inr tbl"
    and res: "fst (search_inquiries L (after_searches L w2 qs) keywords functional_area) = Inr res"
  shows "cache w2 = empty_cache
       \<and> latest_upload (uploads w2) = Some (filename, \<lparr>ctime = now, content = data\<rparr>)
       \<and> list_all (derived_from (build_table L (search_columns w) tbl)) res"
proof -
  let ?f = "\<lparr>ctime = now, content = data\<rparr>"
  let ?d = "build_table L (search_columns w) tbl"
  from up have w2: "w2 = w\<lparr>uploads := write_file (uploads w) filename ?f, cache := empty_cache\<rparr>"
    by (simp add: upload_file_def)
  have emptied: "cache w2 = empty_cache"
    by (simp add: w2)
  have "(filename, ?f) \<in> set (uploads w2)"
    by (simp add: w2 written_file_listed)
  moreover have "list_all (\<lambda>p. p = (filename, ?f) \<or> ctime (snd p) < ctime (snd (filename, ?f)))
      (uploads w2)"
    using newest by simp
  ultimately have latest: "latest_upload (uploads w2) = Some (filename, ?f)"
    by (rule latest_upload_newest)
  have tbl: "read_excel L (content ?f) = Inr tbl"
    using valid by simp
  have "serves_upload (search_columns w) (filename, ?f) ?d w2"
    using latest by (simp add: serves_upload_def w2 empty_cache_def)
  from after_searches_serves [OF this tbl refl]
  have "serves_upload (search_columns w) (filename, ?f) ?d (after_searches L w2 qs)" .
  from search_rows_served [OF this tbl refl res]
  have "list_all (derived_from ?d) res" .
  with emptied latest show ?thesis by simp
qed

theorem search_after_upload_uses_new_file_witness:
  "cache second_upload = empty_cache
   \<and> latest_upload (uploads second_upload) = Some (''b.xlsx'', replaced_file)
   \<and> list_all (derived_from (build_table demo_lib [''title'']
                  \<lparr>columns = [''title''], rows = [(0, [(''title'', Text ''new'')])]\<rparr>))
        [[(''title'', Text ''new''), (''search_text'', Text ''new''), (''similarity'', Num 0)]]"
proof -
  have up: "upload_file cached_world ''b.xlsx'' (content replaced_file) 2 Written
              = (Inr (''b.xlsx'' @ MSG_UPLOAD_OK), second_upload)"
    by (simp add: second_upload_def upload_file_def)
  have newest: "list_all (\<lambda>p. p = (''b.xlsx'', \<lparr>ctime = 2, content = content replaced_file\<rparr>)
                        \<or> ctime (snd p) < 2) (uploads second_upload)"
    by (simp add: second_upload_eq)
  have valid: "read_excel demo_lib (content replaced_file)
                 = Inr \<lparr>columns = [''title''], rows = [(0, [(''title'', Text ''new'')])]\<rparr>"
    by (simp add: demo_lib_def replaced_file_def)
  have cols: "search_columns cached_world = [''title'']"
    by (simp add: cached_world_eq one_upload_def)
  have same: "\<lparr>ctime = 2, content = content replaced_file\<rparr> = replaced_file"
    by (simp add: replaced_file_def)
  show ?thesis
    using search_after_upload_uses_new_file [OF up newest valid search_after_second_upload]
    by (simp add: cols same)
qed

text \<open>
  C5 as stated fails: nothing makes the file of the later upload the one the freshness
  check selects. The check takes the first file of greatest creation time in the order
  of the directory listing. With the first workbook uploaded, cached and stamped 1, and
  the second uploaded under another name with the same stamp, the upload empties the
  cache, the check selects the first file again, and the search returns the three rows
  of the first workbook, none of which is a row of the second.
\<close>

theorem equal_stamp_serves_first_upload:
  "upload_file (one_upload\<lparr>uploads := []\<rparr>) ''a.xlsx'' (Inr inquiries) 1 Written
     = (Inr (''a.xlsx'' @ MSG_UPLOAD_OK), one_upload)
   \<and> upload_file cached_world ''b.xlsx'' (content replaced_file) 1 Written
       = (Inr (''b.xlsx'' @ MSG_UPLOAD_OK), tied_upload)
   \<and> cache tied_upload = empty_cache
   \<and> read_excel demo_lib (content replaced_file)
       = Inr \<lparr>columns = [''title''], rows = [(0, [(''title'', Text ''new'')])]\<rparr>
   \<and> latest_upload (uploads tied_upload)
       = Some (''a.xlsx'', \<lparr>ctime = 1, content = Inr inquiries\<rparr>)
   \<and> fst (search_inquiries demo_lib tied_upload ''zz'' None)
       = Inr [[(''title'', Text ''ab''), (CATEGORY_COLUMN, Text ''A''),
               (''search_text'', Text ''ab''), (''similarity'', Num 0)],
              [(''title'', Text ''xy''), (CATEGORY_COLUMN, Text ''B''),
               (''search_text'', Text ''xy''), (''similarity'', Num 0)],
              [(''title'', Text ''abcd''), (CATEGORY_COLUMN, Text []),
               (''search_text'', Text ''abcd''), (''similarity'', Num (- 2))]]
   \<and> \<not> list_all (derived_from (build_table demo_lib [''title'']
                    \<lparr>columns = [''title''], rows = [(0, [(''title'', Text ''new'')])]\<rparr>))
          [[(''title'', Text ''ab''), (CATEGORY_COLUMN, Text ''A''),
            (''search_text'', Text ''ab''), (''similarity'', Num 0)],
           [(''title'', Text ''xy''), (CATEGORY_COLUMN, Text ''B''),
            (''search_text'', Text ''xy''), (''similarity'', Num 0)],
           [(''title'', Text ''abcd''), (CATEGORY_COLUMN, Text []),
            (''search_text'', Text ''abcd''), (''similarity'', Num (- 2))]]"
proof -
  have u1: "upload_file (one_upload\<lparr>uploads := []\<rparr>) ''a.xlsx'' (Inr inquiries) 1 Written
     = (Inr (''a.xlsx'' @ MSG_UPLOAD_OK), one_upload)"
    by (simp add: upload_file_def one_upload_def)
  have u2: "upload_file cached_world ''b.xlsx'' (content replaced_file) 1 Written
       = (Inr (''b.xlsx'' @ MSG_UPLOAD_OK), tied_upload)"
    by (simp add: tied_upload_def upload_file_def)
  have emptied: "cache tied_upload = empty_cache"
    by (simp add: tied_upload_eq)
  have valid: "read_excel demo_lib (content replaced_file)
       = Inr \<lparr>columns = [''title''], rows = [(0, [(''title'', Text ''new'')])]\<rparr>"
    by (simp add: demo_lib_def replaced_file_def)
  have latest: "latest_upload (uploads tied_upload)
       = Some (''a.xlsx'', \<lparr>ctime = 1, content = Inr inquiries\<rparr>)"
    by (simp add: tied_upload_eq latest_upload_def)
  have other: "\<not> list_all (derived_from (build_table demo_lib [''title'']
                    \<lparr>columns = [''title''], rows = [(0, [(''title'', Text ''new'')])]\<rparr>))
          [[(''title'', Text ''ab''), (CATEGORY_COLUMN, Text ''A''),
            (''search_text'', Text ''ab''), (''similarity'', Num 0)],
           [(''title'', Text ''xy''), (CATEGORY_COLUMN, Text ''B''),
            (''search_text'', Text ''xy''), (''similarity'', Num 0)],
           [(''title'', Text ''abcd''), (CATEGORY_COLUMN, Text []),
            (''search_text'', Text ''abcd''), (''similarity'', Num (- 2))]]"
    by (simp add: derived_from_def build_table_def demo_simps CATEGORY_COLUMN_def)
  from u1 u2 emptied valid latest search_after_tied_upload other show ?thesis
    by (intro conjI)
qed


section \<open>Errors of the configuration\<close>

text \<open>
  C6. In a rebuild whose file has been parsed: with no search column configured
  \<^verbatim>\<open>_ensure_data_is_cached\<close> fails with the 500 that says so (the specification's
  ConfigurationError), and with a configured column that the parsed table lacks it fails
  with a 400 whose message quotes such a column (the SchemaError).
\<close>

theorem configuration_errors:
  assumes "latest_upload (uploads w) = Some (name, f)"
    and "\<not> cache_hit w name"
    and "read_excel L (content f) = Inr tbl"
  shows "(search_columns w = [] \<longrightarrow>
            fst (ensure_data_is_cached L w) = Inl (HTTPException 500 MSG_NO_SEARCH_COLUMNS))
       \<and> (search_columns w \<noteq> [] \<and> \<not> list_all (\<lambda>c. c \<in> set (columns tbl)) (search_columns w) \<longrightarrow>
            (\<exists>col. col \<in> set (search_columns w) \<and> col \<notin> set (columns tbl)
               \<and> fst (ensure_data_is_cached L w)
                   = Inl (HTTPException 400 (MSG_COL_PRE @ col @ MSG_COL_POST))))"
proof -
  have "fst (ensure_data_is_cached L w) = Inl (HTTPException 500 MSG_NO_SEARCH_COLUMNS)"
    if "search_columns w = []"
  proof -
    have "rebuild_outcome L (search_columns w) (content f)
            = Inl (HTTPException 500 MSG_NO_SEARCH_COLUMNS)"
      using that assms(3) by (simp add: rebuild_outcome_def)
    from ensure_miss_fail [OF assms(1,2) this] show ?thesis
      by (auto simp: reraised_def)
  qed
  moreover have "\<exists>col. col \<in> set (search_columns w) \<and> col \<notin> set (columns tbl)
               \<and> fst (ensure_data_is_cached L w)
                   = Inl (HTTPException 400 (MSG_COL_PRE @ col @ MSG_COL_POST))"
    if h1: "search_columns w \<noteq> []" and h2: "\<not> list_all (\<lambda>c. c \<in> set (columns tbl)) (search_columns w)"
  proof -
    obtain col where col: "find (\<lambda>c. c \<notin> set (columns tbl)) (search_columns w) = Some col"
      "col \<in> set (search_columns w)" "col \<notin> set (columns tbl)"
      using find_missing [OF h2] by blast
    have "rebuild_outcome L (search_columns w) (content f)
            = Inl (HTTPException 400 (MSG_COL_PRE @ col @ MSG_COL_POST))"
      using h1 assms(3) col(1) by (simp add: rebuild_outcome_def)
    from ensure_miss_fail [OF assms(1,2) this]
    have "fst (ensure_data_is_cached L w)
            = Inl (HTTPException 400 (MSG_COL_PRE @ col @ MSG_COL_POST))"
      by (auto simp: reraised_def)
    with col(2,3) show ?thesis by blast
  qed
  ultimately show ?thesis by blast
qed

theorem configuration_errors_witness:
  "fst (ensure_data_is_cached demo_lib no_config) = Inl (HTTPException 500 MSG_NO_SEARCH_COLUMNS)
   \<and> fst (ensure_data_is_cached demo_lib missing_column)
       = Inl (HTTPException 400 (MSG_COL_PRE @ ''body'' @ MSG_COL_POST))"
proof -
  let ?f = "\<lparr>ctime = 1, content = Inr inquiries\<rparr> :: (string + int dataframe) stored_file"
  have a: "latest_upload (uploads no_config) = Some (''a.xlsx'', ?f)"
    "latest_upload (uploads missing_column) = Some (''a.xlsx'', ?f)"
    by (simp_all add: no_config_def missing_column_def one_upload_def latest_upload_def)
  have b: "\<not> cache_hit no_config ''a.xlsx''" "\<not> cache_hit missing_column ''a.xlsx''"
    by (simp_all add: no_config_def missing_column_def one_upload_def cache_hit_def empty_cache_def)
  have c: "read_excel demo_lib (content ?f) = Inr inquiries"
    by (simp add: demo_lib_def)
  have d: "search_columns no_config = []"
    by (simp add: no_config_def)
  have e: "search_columns missing_column = [''title'', ''body'']"
    by (simp add: missing_column_def)
  have g: "\<not> list_all (\<lambda>c. c \<in> set (columns inquiries)) (search_columns missing_column)"
    by (simp add: e inquiries_def CATEGORY_COLUMN_def)
  have h: "col \<in> set (search_columns missing_column) \<and> col \<notin> set (columns inquiries)
            \<longleftrightarrow> col = ''body''" for col
    by (auto simp: e inquiries_def CATEGORY_COLUMN_def)
  have "fst (ensure_data_is_cached demo_lib no_config) = Inl (HTTPException 500 MSG_NO_SEARCH_COLUMNS)"
    using configuration_errors [OF a(1) b(1) c] d by simp
  moreover have "fst (ensure_data_is_cached demo_lib missing_column)
       = Inl (HTTPException 400 (MSG_COL_PRE @ ''body'' @ MSG_COL_POST))"
    using configuration_errors [OF a(2) b(2) c] e g h by (metis list.distinct(1))
  ultimately show ?thesis by simp
qed


section \<open>The category filter\<close>

text \<open>
  C7. When a search restricted to a named category (not empty, not the sentinel)
  returns records, the category field of every one of them is that category, as text
  and character by character. With no category, the empty one or the sentinel, the
  search ranks a copy of the whole cached table.
\<close>

theorem category_filter_exact:
  "(\<forall>area res. area \<noteq> [] \<and> area \<noteq> ALL_AREAS
        \<and> fst (search_inquiries L w keywords (Some area)) = Inr res \<longrightarrow>
      list_all (\<lambda>r. cell_of r CATEGORY_COLUMN = Text area) res)
   \<and> (\<forall>functional_area w1 a.
        (functional_area = None \<or> functional_area = Some [] \<or> functional_area = Some ALL_AREAS)
        \<and> uploads w \<noteq> [] \<and> ensure_data_is_cached L w = (Inr (), w1) \<and> df (cache w1) = Some a \<longrightarrow>
      search_inquiries L w keywords functional_area
        = rank_results L (w1\<lparr>heap := heap w1 @ [heap w1 ! a]\<rparr>) (length (heap w1))
            (vectorizer (cache w1)) (matrix (cache w1)) keywords)"
proof -
  have "list_all (\<lambda>r. cell_of r CATEGORY_COLUMN = Text area) res"
    if area: "area \<noteq> []" "area \<noteq> ALL_AREAS"
      and res: "fst (search_inquiries L w keywords (Some area)) = Inr res" for area res
  proof -
    from res obtain w1 a t w2 where
      sel: "select_target w1 a (Some area) = (Inr t, w2)"
      and rank: "fst (rank_results L w2 t (vectorizer (cache w1)) (matrix (cache w1)) keywords)
                   = Inr res"
      by (rule search_success)
    from select_target_ok [OF sel] obtain hs where
      w2: "w2 = w1\<lparr>heap := heap w1 @ hs\<rparr>" and t: "t < length (heap w1 @ hs)"
      and tgt: "(heap w1 @ hs) ! t = (heap w1 ! a)\<lparr>rows := candidates (heap w1 ! a) (Some area)\<rparr>"
      by blast
    have rows_t: "rows (heap w2 ! t)
        = filter (\<lambda>(i, r). cell_of r CATEGORY_COLUMN = Text area) (rows (heap w1 ! a))"
      using area by (simp add: w2 tgt candidates_def filter_rows_def)
    have "cell_of r CATEGORY_COLUMN = Text area" if "r \<in> set res" for r
    proof -
      from t have "t < length (heap w2)" by (simp add: w2)
      from rank_results_rows [OF this rank that] obtain i r0 s where
        "(i, r0) \<in> set (rows (heap w2 ! t))" and r: "r = dict_set ''similarity'' (Num s) r0"
        by blast
      then have "cell_of r0 CATEGORY_COLUMN = Text area"
        by (simp add: rows_t)
      then show ?thesis
        by (simp add: r cell_of_dict_set similarity_is_not_category)
    qed
    then show ?thesis by (simp add: list_all_iff)
  qed
  moreover have "search_inquiries L w keywords functional_area
        = rank_results L (w1\<lparr>heap := heap w1 @ [heap w1 ! a]\<rparr>) (length (heap w1))
            (vectorizer (cache w1)) (matrix (cache w1)) keywords"
    if "functional_area = None \<or> functional_area = Some [] \<or> functional_area = Some ALL_AREAS"
      and "uploads w \<noteq> []" and "ensure_data_is_cached L w = (Inr (), w1)"
      and "df (cache w1) = Some a" for functional_area w1 a
    by (simp add: search_unfold [OF that(2-4)] select_target_unfiltered [OF that(1)])
  ultimately show ?thesis by blast
qed

theorem category_filter_exact_witness:
  "list_all (\<lambda>r. cell_of r CATEGORY_COLUMN = Text ''B'')
     [[(''title'', Text ''xy''), (CATEGORY_COLUMN, Text ''B''),
       (''search_text'', Text ''xy''), (''similarity'', Num (0::int))]]
   \<and> search_inquiries demo_lib one_upload ''zz'' None
       = rank_results demo_lib (cached_world\<lparr>heap := heap cached_world @ [heap cached_world ! 0]\<rparr>)
           (length (heap cached_world)) (vectorizer (cache cached_world))
           (matrix (cache cached_world)) ''zz''"
proof -
  have b: "''B'' \<noteq> []" "''B'' \<noteq> ALL_AREAS"
    by (simp_all add: ALL_AREAS_def)
  have a: "uploads one_upload \<noteq> []"
    by (simp add: one_upload_def)
  have c: "df (cache cached_world) = Some 0"
    by (simp add: cached_world_eq)
  show ?thesis
    using category_filter_exact [of demo_lib one_upload "''zz''"] b search_category_B
      a ensure_one_upload c
    by blast
qed


section \<open>No matching row and no category column\<close>

text \<open>
  C8. After a successful freshness check, a search restricted to a named category (not
  empty, not the sentinel) has two outcomes that differ: when the cached table has the
  category column and no row of that category, the search returns the empty list and no
  error; when the cached table has no category column, the search fails with the 400
  whose message says that the column was not found.
\<close>

theorem empty_category_versus_missing_column:
  assumes "uploads w \<noteq> []" and "ensure_data_is_cached L w = (Inr (), w1)"
    and "df (cache w1) = Some a"
    and "area \<noteq> []" and "area \<noteq> ALL_AREAS"
  shows "(CATEGORY_COLUMN \<in> set (columns (heap w1 ! a))
            \<and> rows (filter_rows (heap w1 ! a) CATEGORY_COLUMN area) = [] \<longrightarrow>
          fst (search_inquiries L w keywords (Some area)) = Inr [])
       \<and> (CATEGORY_COLUMN \<notin> set (columns (heap w1 ! a)) \<longrightarrow>
          fst (search_inquiries L w keywords (Some area))
            = Inl (HTTPException 400 MSG_SEARCH_NO_COLUMN))"
proof -
  note unfold = search_unfold [OF assms(1-3)]
  have "fst (search_inquiries L w keywords (Some area)) = Inr []"
    if "CATEGORY_COLUMN \<in> set (columns (heap w1 ! a))"
      and "rows (filter_rows (heap w1 ! a) CATEGORY_COLUMN area) = []"
    using unfold select_target_named [OF assms(4,5) that(1)] that(2)
    by (simp add: rank_results_def df_empty_def nth_append)
  moreover have "fst (search_inquiries L w keywords (Some area))
            = Inl (HTTPException 400 MSG_SEARCH_NO_COLUMN)"
    if "CATEGORY_COLUMN \<notin> set (columns (heap w1 ! a))"
    using unfold select_target_no_column [OF assms(4,5) that] by simp
  ultimately show ?thesis by blast
qed

theorem empty_category_versus_missing_column_witness:
  "fst (search_inquiries demo_lib one_upload ''zz'' (Some ''Z'')) = Inr []
   \<and> fst (search_inquiries demo_lib plain_upload ''zz'' (Some ''Z''))
       = Inl (HTTPException 400 MSG_SEARCH_NO_COLUMN)"
proof -
  have z: "''Z'' \<noteq> []" "''Z'' \<noteq> ALL_AREAS"
    by (simp_all add: ALL_AREAS_def)
  have a: "uploads one_upload \<noteq> []" "uploads plain_upload \<noteq> []"
    by (simp_all add: one_upload_def plain_upload_def)
  have b: "df (cache cached_world) = Some 0"
    by (simp add: cached_world_eq)
  have c: "CATEGORY_COLUMN \<in> set (columns (heap cached_world ! 0))
            \<and> rows (filter_rows (heap cached_world ! 0) CATEGORY_COLUMN ''Z'') = []"
    by (simp add: cached_table filter_rows_def cell_of_def CATEGORY_COLUMN_def)
  have "fst (search_inquiries demo_lib one_upload ''zz'' (Some ''Z'')) = Inr []"
    using empty_category_versus_missing_column [OF a(1) ensure_one_upload b z] c by blast
  moreover have "fst (search_inquiries demo_lib plain_upload ''zz'' (Some ''Z''))
       = Inl (HTTPException 400 MSG_SEARCH_NO_COLUMN)"
    using empty_category_versus_missing_column [OF a(2) ensure_plain_upload _ z, of 0 "''zz''"]
    by (simp add: CATEGORY_COLUMN_def)
  ultimately show ?thesis by simp
qed


section \<open>Repeated calls\<close>

text \<open>
  C9, as amended. With a file in the upload directory and the cache empty, a call of
  \<^verbatim>\<open>_ensure_data_is_cached\<close> that succeeds reads the newest file once and fits once, and
  from then on, the directory being as it was, every call returns without reading and
  leaves the whole state, the cache with it, unchanged.
\<close>

theorem ensure_idempotent_after_success:
  assumes "latest_upload (uploads w) = Some (name, f)"
    and "cache w = empty_cache"
    and "ensure_data_is_cached L w = (Inr (), w1)"
  shows "io_log w1 = io_log w @ [ReadExcel (path_join UPLOAD_DIR name), FitTransform]
       \<and> ensure_data_is_cached L w1 = (Inr (), w1)
       \<and> (\<forall>n. ((\<lambda>s. snd (ensure_data_is_cached L s)) ^^ n) w1 = w1)"
proof -
  have miss: "\<not> cache_hit w name"
    using assms(2) by (simp add: cache_hit_def empty_cache_def)
  obtain d vz m where ok: "rebuild_outcome L (search_columns w) (content f) = Inr (d, vz, m)"
  proof (cases "rebuild_outcome L (search_columns w) (content f)")
    case (Inl e)
    from ensure_miss_fail [OF assms(1) miss Inl] assms(3) show ?thesis by auto
  next
    case (Inr r)
    then show ?thesis using that by (cases r) auto
  qed
  have w1: "w1 = w\<lparr>io_log := io_log w @ [ReadExcel (path_join UPLOAD_DIR name), FitTransform],
                    heap := heap w @ [d],
                    cache := \<lparr>filepath = Some (path_join UPLOAD_DIR name),
                               df = Some (length (heap w)),
                               vectorizer = Some vz, matrix = Some m\<rparr>\<rparr>"
    using ensure_miss_ok [OF assms(1) miss ok] assms(3) by simp
  have log: "io_log w1 = io_log w @ [ReadExcel (path_join UPLOAD_DIR name), FitTransform]"
    by (simp add: w1)
  have "latest_upload (uploads w1) = Some (name, f)" and "cache_hit w1 name"
    using assms(1) by (simp_all add: w1 cache_hit_def)
  then have again: "ensure_data_is_cached L w1 = (Inr (), w1)"
    by (rule ensure_hit)
  have "((\<lambda>s. snd (ensure_data_is_cached L s)) ^^ n) w1 = w1" for n
    by (induction n) (simp_all add: again)
  with log again show ?thesis by blast
qed

theorem ensure_idempotent_after_success_witness:
  "io_log cached_world = [ReadExcel ''uploads/a.xlsx'', FitTransform]
   \<and> ensure_data_is_cached demo_lib cached_world = (Inr (), cached_world)
   \<and> ((\<lambda>s. snd (ensure_data_is_cached demo_lib s)) ^^ 3) cached_world = cached_world"
proof -
  let ?f = "\<lparr>ctime = 1, content = Inr inquiries\<rparr> :: (string + int dataframe) stored_file"
  have a: "latest_upload (uploads one_upload) = Some (''a.xlsx'', ?f)"
    by (simp add: one_upload_def latest_upload_def)
  have b: "cache one_upload = empty_cache"
    by (simp add: one_upload_def)
  have c: "ensure_data_is_cached demo_lib one_upload = (Inr (), cached_world)"
    by (simp add: cached_world_eq) (simp add: build_table_def demo_simps)
  show ?thesis
    using ensure_idempotent_after_success [OF a b c]
    by (simp add: one_upload_def path_join_def UPLOAD_DIR_def)
qed

text \<open>
  C9 as stated fails when the rebuild fails: the cache is left empty, so the next call
  starts over. With no search column configured the first call reads the file and
  fails, and the second call, with no new file, reads it again.
\<close>

theorem failed_rebuild_is_repeated:
  "cache no_config = empty_cache
   \<and> fst (ensure_data_is_cached demo_lib no_config) = Inl (HTTPException 500 MSG_NO_SEARCH_COLUMNS)
   \<and> uploads (snd (ensure_data_is_cached demo_lib no_config)) = uploads no_config
   \<and> io_log (snd (ensure_data_is_cached demo_lib no_config)) = [ReadExcel ''uploads/a.xlsx'']
   \<and> io_log (snd (ensure_data_is_cached demo_lib (snd (ensure_data_is_cached demo_lib no_config))))
       = [ReadExcel ''uploads/a.xlsx'', ReadExcel ''uploads/a.xlsx'']"
  by (simp add: no_config_def demo_simps)


section \<open>Searching leaves the cache alone\<close>

text \<open>
  C10. Once the freshness check has succeeded, whatever the search then does, return
  records or fail, the cache dictionary is as the check left it, every DataFrame object
  that existed then is unchanged, and so is in particular the cached table: the copy,
  the selection and the similarity column are objects and writes beyond them. On a
  cache hit the check leaves the state it found, so the cache is the one from before
  the call.
\<close>

theorem search_leaves_cache:
  assumes "ensure_data_is_cached L w = (Inr (), w1)"
  shows "cache (snd (search_inquiries L w keywords functional_area)) = cache w1
       \<and> take (length (heap w1)) (heap (snd (search_inquiries L w keywords functional_area)))
           = heap w1
       \<and> (\<forall>a. df (cache w1) = Some a \<and> a < length (heap w1) \<longrightarrow>
             heap (snd (search_inquiries L w keywords functional_area)) ! a = heap w1 ! a)"
proof -
  let ?w' = "snd (search_inquiries L w keywords functional_area)"
  from assms have "snd (ensure_data_is_cached L w) = w1" by simp
  with search_state [of L w "keywords" functional_area]
  obtain h where w': "?w' = w1\<lparr>heap := h\<rparr>" and h: "take (length (heap w1)) h = heap w1"
    by auto
  have "h ! a = heap w1 ! a" if "a < length (heap w1)" for a
    using that h by (metis nth_take)
  with w' h show ?thesis by simp
qed

theorem search_leaves_cache_witness:
  "cache (snd (search_inquiries demo_lib cached_world ''zz'' None)) = cache cached_world
   \<and> heap (snd (search_inquiries demo_lib cached_world ''zz'' None)) ! 0 = heap cached_world ! 0
   \<and> df (cache cached_world) = Some 0"
proof -
  have c: "df (cache cached_world) = Some 0 \<and> 0 < length (heap cached_world)"
    by (simp add: cached_world_eq)
  show ?thesis
    using search_leaves_cache [OF ensure_cached_world, of "''zz''" None] c
    by blast
qed

end
